theory Spec2Isabelle
  imports Main "HOL-Library.AList" "HOL-Library.Multiset"
begin

section \<open>The versioned API dispatcher (cmd/internal/api/versions.go)\<close>

subsection \<open>Request type names\<close>

text \<open>The \<^verbatim>\<open>const\<close> block of versions.go. The names are abbreviations, so that two
  request types are compared as the string literals they are.\<close>

abbreviation containersAPI :: string where "containersAPI \<equiv> ''containers''"
abbreviation subcontainersAPI :: string where "subcontainersAPI \<equiv> ''subcontainers''"
abbreviation machineAPI :: string where "machineAPI \<equiv> ''machine''"
abbreviation machineStatsAPI :: string where "machineStatsAPI \<equiv> ''machinestats''"
abbreviation dockerAPI :: string where "dockerAPI \<equiv> ''docker''"
abbreviation summaryAPI :: string where "summaryAPI \<equiv> ''summary''"
abbreviation statsAPI :: string where "statsAPI \<equiv> ''stats''"
abbreviation specAPI :: string where "specAPI \<equiv> ''spec''"
abbreviation eventsAPI :: string where "eventsAPI \<equiv> ''events''"
abbreviation storageAPI :: string where "storageAPI \<equiv> ''storage''"
abbreviation attributesAPI :: string where "attributesAPI \<equiv> ''attributes''"
abbreviation versionAPI :: string where "versionAPI \<equiv> ''version''"
abbreviation psAPI :: string where "psAPI \<equiv> ''ps''"
abbreviation customMetricsAPI :: string where "customMetricsAPI \<equiv> ''appmetrics''"

subsection \<open>Errors\<close>

text \<open>Every \<^verbatim>\<open>fmt.Errorf\<close> of versions.go is a constructor that keeps the values the
  message is formatted from. \<open>Upstream\<close> stands for an error value made by a collaborator
  (the Manager, the JSON decoder, the response writer, the Go library). The last two
  constructors belong to the factory registry.\<close>

datatype error =
    UnknownRequestType string
  | FailedGetContainer string error
  | FailedGetSubcontainers string error
  | FailedGetAllDocker error
  | FailedGetDocker string error
  | UnknownDockerRequest "string list"
  | UnknownIdType string
  | FailedParseCount string
  | InvalidCount int
  | FailedParseMaxAge error
  | Upstream string
  | NoHandlerFound string
  | HandlerConstructionFailed string string error

subsection \<open>Data of the collaborators\<close>

text \<open>The payload types of info/v1 and info/v2 (machine info, container spec, stats,
  events, the decoded query body) are not among the sources and no code of versions.go
  looks inside them: they are one type parameter \<open>'a\<close>. Of \<^verbatim>\<open>info.ContainerInfo\<close> the
  record keeps the fields versions.go reads. A Go map is an association list: its keys
  are distinct, \<^verbatim>\<open>len\<close> is the length, \<^verbatim>\<open>range\<close> visits the pairs in the order of the
  list (Go leaves the order open), and \<^verbatim>\<open>m[k] = v\<close> is \<open>AList.update k v\<close>.\<close>

record 'a ContainerInfo =
  Name :: string
  Aliases :: "string list"
  Namespace :: string
  Spec :: 'a
  Stats :: "'a list"

type_synonym 'a InfoMap = "(string \<times> 'a ContainerInfo) list"

text \<open>\<^verbatim>\<open>v2.RequestOptions\<close>: \<open>MaxAge\<close> is a \<^verbatim>\<open>*time.Duration\<close>, here an optional number
  of nanoseconds.\<close>

record RequestOptions =
  IdType :: string
  Count :: int
  Recursive :: bool
  MaxAge :: "int option"

text \<open>The event query: versions.go sets its \<open>ContainerName\<close>; the rest is payload.\<close>

record 'a EventRequest =
  ContainerName :: string
  EventFilter :: 'a

text \<open>Of \<^verbatim>\<open>*http.Request\<close> the code reads the parsed URL query (\<^verbatim>\<open>url.Values\<close>, a map
  from a key to its list of values, \<open>[]\<close> for a missing key) and the body.\<close>

record Request =
  URLQuery :: "string \<Rightarrow> string list"
  Body :: string

text \<open>The Manager interface, with the methods versions.go calls. A Go method that
  returns \<^verbatim>\<open>(value, error)\<close> returns a pair here: both components can be meaningful at
  once, as for \<open>GetRequestedContainersInfo\<close>.\<close>

record 'a Manager =
  GetMachineInfo :: "'a \<times> error option"
  GetContainerInfo :: "string \<Rightarrow> 'a \<Rightarrow> 'a ContainerInfo \<times> error option"
  SubcontainersInfo :: "string \<Rightarrow> 'a \<Rightarrow> 'a ContainerInfo list \<times> error option"
  AllDockerContainers :: "'a \<Rightarrow> 'a InfoMap \<times> error option"
  DockerContainer :: "string \<Rightarrow> 'a \<Rightarrow> 'a ContainerInfo \<times> error option"
  GetPastEvents :: "'a EventRequest \<Rightarrow> 'a list \<times> error option"
  WatchForEvents :: "'a EventRequest \<Rightarrow> 'a \<times> error option"
  GetRequestedContainersInfo :: "string \<Rightarrow> RequestOptions \<Rightarrow> 'a InfoMap \<times> error option"

text \<open>What a handler hands to \<^verbatim>\<open>writeResult\<close>, one constructor for each Go type.\<close>

datatype 'a result =
    MachineInfoResult 'a
  | ContainerResult "'a ContainerInfo"
  | SubcontainersResult "'a ContainerInfo list"
  | DockerResult "'a InfoMap"
  | EventsResult "'a list"
  | DeprecatedStatsResult "(string \<times> 'a list) list"
  | MachineStatsResult "'a list"
  | ContainerInfoV2Result "(string \<times> 'a \<times> 'a list) list"

text \<open>The state a handler works on: the response writer \<open>'w\<close>, and the list of the
  Manager methods the handler has called so far, oldest first.\<close>

datatype mcall =
    CallGetMachineInfo
  | CallGetContainerInfo string
  | CallSubcontainersInfo string
  | CallAllDockerContainers
  | CallDockerContainer string
  | CallGetPastEvents
  | CallWatchForEvents
  | CallGetRequestedContainersInfo string

record 'w State =
  writer :: 'w
  calls :: "mcall list"

text \<open>The functions versions.go calls and that are defined elsewhere (the helpers of
  the api package, the converters of info/v2, \<^verbatim>\<open>path.Join\<close>, \<^verbatim>\<open>strconv.Atoi\<close> and
  \<^verbatim>\<open>time.ParseDuration\<close>) are parameters, collected in one record.\<close>

record ('a, 'w) Env =
  getContainerName :: "string list \<Rightarrow> string"
  getContainerInfoRequest :: "string \<Rightarrow> 'a \<times> error option"
  getEventRequest :: "Request \<Rightarrow> 'a EventRequest \<times> bool \<times> error option"
  writeResult :: "'a result \<Rightarrow> 'w \<Rightarrow> error option \<times> 'w"
  streamResults :: "'a \<Rightarrow> 'w \<Rightarrow> Request \<Rightarrow> 'a Manager \<Rightarrow> error option \<times> 'w"
  pathJoin :: "string \<Rightarrow> string \<Rightarrow> string"
  Atoi :: "string \<Rightarrow> int \<times> error option"
  ParseDuration :: "string \<Rightarrow> int \<times> error option"
  DeprecatedStatsFromV1 :: "'a ContainerInfo \<Rightarrow> 'a list"
  MachineStatsFromV1 :: "'a ContainerInfo option \<Rightarrow> 'a list"
  ContainerSpecFromV1 :: "'a \<Rightarrow> string list \<Rightarrow> string \<Rightarrow> 'a"
  ContainerStatsFromV1 :: "string \<Rightarrow> 'a \<Rightarrow> 'a list \<Rightarrow> 'a list"

definition called :: "mcall \<Rightarrow> 'w State \<Rightarrow> 'w State" where
  "called c s = s\<lparr>calls := calls s @ [c]\<rparr>"

text \<open>\<^verbatim>\<open>err = writeResult(x, w); if err != nil { return err }; return nil\<close>, which is
  \<^verbatim>\<open>return writeResult(x, w)\<close>.\<close>

definition writeTo :: "('a, 'w) Env \<Rightarrow> 'a result \<Rightarrow> 'w State \<Rightarrow> error option \<times> 'w State" where
  "writeTo env x s = (case writeResult env x (writer s) of (err, w') \<Rightarrow> (err, s\<lparr>writer := w'\<rparr>))"

subsection \<open>API v1.0 to v1.3\<close>

definition version1_0_SupportedRequestTypes :: "string list" where
  "version1_0_SupportedRequestTypes = [containersAPI, machineAPI]"

definition version1_0_HandleRequest ::
  "('a, 'w) Env \<Rightarrow> string \<Rightarrow> string list \<Rightarrow> 'a Manager \<Rightarrow> 'w State \<Rightarrow> Request
     \<Rightarrow> error option \<times> 'w State" where
  "version1_0_HandleRequest env requestType request m s r =
     (if requestType = machineAPI then
        (case GetMachineInfo m of
           (machineInfo, Some err) \<Rightarrow> (Some err, called CallGetMachineInfo s)
         | (machineInfo, None) \<Rightarrow>
             writeTo env (MachineInfoResult machineInfo) (called CallGetMachineInfo s))
      else if requestType = containersAPI then
        (let containerName = getContainerName env request in
         case getContainerInfoRequest env (Body r) of
           (query, Some err) \<Rightarrow> (Some err, s)
         | (query, None) \<Rightarrow>
             (case GetContainerInfo m containerName query of
                (cont, Some err) \<Rightarrow>
                  (Some (FailedGetContainer containerName err),
                   called (CallGetContainerInfo containerName) s)
              | (cont, None) \<Rightarrow>
                  writeTo env (ContainerResult cont)
                    (called (CallGetContainerInfo containerName) s)))
      else (Some (UnknownRequestType requestType), s))"

definition version1_1_SupportedRequestTypes :: "string list" where
  "version1_1_SupportedRequestTypes = version1_0_SupportedRequestTypes @ [subcontainersAPI]"

definition version1_1_HandleRequest ::
  "('a, 'w) Env \<Rightarrow> string \<Rightarrow> string list \<Rightarrow> 'a Manager \<Rightarrow> 'w State \<Rightarrow> Request
     \<Rightarrow> error option \<times> 'w State" where
  "version1_1_HandleRequest env requestType request m s r =
     (if requestType = subcontainersAPI then
        (let containerName = getContainerName env request in
         case getContainerInfoRequest env (Body r) of
           (query, Some err) \<Rightarrow> (Some err, s)
         | (query, None) \<Rightarrow>
             (case SubcontainersInfo m containerName query of
                (containers, Some err) \<Rightarrow>
                  (Some (FailedGetSubcontainers containerName err),
                   called (CallSubcontainersInfo containerName) s)
              | (containers, None) \<Rightarrow>
                  writeTo env (SubcontainersResult containers)
                    (called (CallSubcontainersInfo containerName) s)))
      else version1_0_HandleRequest env requestType request m s r)"

definition version1_2_SupportedRequestTypes :: "string list" where
  "version1_2_SupportedRequestTypes = version1_1_SupportedRequestTypes @ [dockerAPI]"

text \<open>The docker case: \<^verbatim>\<open>request[:0]\<close> replaces a request of one empty segment, then the
  switch is on the length of the request.\<close>

definition version1_2_HandleRequest ::
  "('a, 'w) Env \<Rightarrow> string \<Rightarrow> string list \<Rightarrow> 'a Manager \<Rightarrow> 'w State \<Rightarrow> Request
     \<Rightarrow> error option \<times> 'w State" where
  "version1_2_HandleRequest env requestType request m s r =
     (if requestType = dockerAPI then
        (case getContainerInfoRequest env (Body r) of
           (query, Some err) \<Rightarrow> (Some err, s)
         | (query, None) \<Rightarrow>
             (let request = (if length request = 1 \<and> length (request ! 0) = 0
                             then take 0 request else request)
              in case request of
                   [] \<Rightarrow>
                     (case AllDockerContainers m query of
                        (containers, Some err) \<Rightarrow>
                          (Some (FailedGetAllDocker err), called CallAllDockerContainers s)
                      | (containers, None) \<Rightarrow>
                          writeTo env (DockerResult containers) (called CallAllDockerContainers s))
                 | [name] \<Rightarrow>
                     (case DockerContainer m name query of
                        (cont, Some err) \<Rightarrow>
                          (Some (FailedGetDocker name err), called (CallDockerContainer name) s)
                      | (cont, None) \<Rightarrow>
                          writeTo env (DockerResult [(Name cont, cont)])
                            (called (CallDockerContainer name) s))
                 | _ \<Rightarrow> (Some (UnknownDockerRequest request), s)))
      else version1_1_HandleRequest env requestType request m s r)"

definition version1_3_SupportedRequestTypes :: "string list" where
  "version1_3_SupportedRequestTypes = version1_2_SupportedRequestTypes @ [eventsAPI]"

text \<open>\<open>streamResults\<close> keeps the connection open and returns when the client leaves or
  the watch is torn down; what it writes and returns is the parameter's.\<close>

definition handleEventRequest ::
  "('a, 'w) Env \<Rightarrow> string list \<Rightarrow> 'a Manager \<Rightarrow> 'w State \<Rightarrow> Request
     \<Rightarrow> error option \<times> 'w State" where
  "handleEventRequest env request m s r =
     (case getEventRequest env r of
        (query, stream, Some err) \<Rightarrow> (Some err, s)
      | (query, stream, None) \<Rightarrow>
          (let query = query\<lparr>ContainerName := pathJoin env ''/'' (getContainerName env request)\<rparr>
           in if \<not> stream then
                (case GetPastEvents m query of
                   (pastEvents, Some err) \<Rightarrow> (Some err, called CallGetPastEvents s)
                 | (pastEvents, None) \<Rightarrow>
                     writeTo env (EventsResult pastEvents) (called CallGetPastEvents s))
              else
                (case WatchForEvents m query of
                   (eventChannel, Some err) \<Rightarrow> (Some err, called CallWatchForEvents s)
                 | (eventChannel, None) \<Rightarrow>
                     (case streamResults env eventChannel (writer s) r m of
                        (err, w') \<Rightarrow> (err, (called CallWatchForEvents s)\<lparr>writer := w'\<rparr>)))))"

definition version1_3_HandleRequest ::
  "('a, 'w) Env \<Rightarrow> string \<Rightarrow> string list \<Rightarrow> 'a Manager \<Rightarrow> 'w State \<Rightarrow> Request
     \<Rightarrow> error option \<times> 'w State" where
  "version1_3_HandleRequest env requestType request m s r =
     (if requestType = eventsAPI then handleEventRequest env request m s r
      else version1_2_HandleRequest env requestType request m s r)"

subsection \<open>Request options\<close>

text \<open>\<^verbatim>\<open>url.Values.Get\<close>: the first value of the key, the empty string when the key has
  no value. An absent parameter and a parameter with an empty value read the same.\<close>

definition Get :: "(string \<Rightarrow> string list) \<Rightarrow> string \<Rightarrow> string" where
  "Get v key = (case v key of [] \<Rightarrow> [] | x # _ \<Rightarrow> x)"

text \<open>Modelled from the spec: the id-type constants \<^verbatim>\<open>v2.TypeName\<close>,
  \<^verbatim>\<open>v2.TypeDocker\<close> and \<^verbatim>\<open>v2.TypePodman\<close> of info/v2, which is not among the sources;
  they make the fixed allow-set of the \<^verbatim>\<open>type\<close> parameter.\<close>

abbreviation TypeName :: string where "TypeName \<equiv> ''name''"
abbreviation TypeDocker :: string where "TypeDocker \<equiv> ''docker''"
abbreviation TypePodman :: string where "TypePodman \<equiv> ''podman''"

text \<open>The map \<^verbatim>\<open>supportedTypes\<close>; a key that is not in a \<^verbatim>\<open>map[string]bool\<close> reads
  \<^verbatim>\<open>false\<close>.\<close>

definition supportedTypes :: "string \<Rightarrow> bool" where
  "supportedTypes t = (t = TypeName \<or> t = TypeDocker \<or> t = TypePodman)"

definition GetRequestOptions :: "('a, 'w) Env \<Rightarrow> Request \<Rightarrow> RequestOptions \<times> error option" where
  "GetRequestOptions env r =
     (let opt = \<lparr>IdType = TypeName, Count = 64, Recursive = False, MaxAge = None\<rparr>;
          idType = Get (URLQuery r) ''type''
      in if length idType \<noteq> 0 \<and> \<not> supportedTypes idType
         then (opt, Some (UnknownIdType idType))
         else
           (let opt = (if length idType \<noteq> 0 then opt\<lparr>IdType := idType\<rparr> else opt);
                count = Get (URLQuery r) ''count''
            in if length count \<noteq> 0 \<and> snd (Atoi env count) \<noteq> None
               then (opt, Some (FailedParseCount count))
               else if length count \<noteq> 0 \<and> fst (Atoi env count) < - 1
               then (opt, Some (InvalidCount (fst (Atoi env count))))
               else
                 (let opt = (if length count \<noteq> 0 then opt\<lparr>Count := fst (Atoi env count)\<rparr>
                             else opt);
                      recursive = Get (URLQuery r) ''recursive'';
                      opt = (if recursive = ''true'' then opt\<lparr>Recursive := True\<rparr> else opt);
                      maxAgeString = Get (URLQuery r) ''max_age''
                  in if length maxAgeString > 0
                     then (case ParseDuration env maxAgeString of
                             (maxAge, Some err) \<Rightarrow> (opt, Some (FailedParseMaxAge err))
                           | (maxAge, None) \<Rightarrow> (opt\<lparr>MaxAge := Some maxAge\<rparr>, None))
                     else (opt, None))))"

subsection \<open>API v2.0 and v2.1\<close>

definition version2_0_SupportedRequestTypes :: "string list" where
  "version2_0_SupportedRequestTypes =
     [versionAPI, attributesAPI, eventsAPI, machineAPI, summaryAPI, statsAPI, specAPI,
      storageAPI, psAPI, customMetricsAPI]"

text \<open>The loop of \<open>handleStatsAPI\<close> over the map \<open>infos\<close>.\<close>

fun deprecatedStatsLoop ::
  "('a, 'w) Env \<Rightarrow> 'a InfoMap \<Rightarrow> (string \<times> 'a list) list \<Rightarrow> (string \<times> 'a list) list" where
  "deprecatedStatsLoop env [] contStats = contStats"
| "deprecatedStatsLoop env ((name, cinfo) # infos) contStats =
     deprecatedStatsLoop env infos (AList.update name (DeprecatedStatsFromV1 env cinfo) contStats)"

text \<open>An error of the Manager is returned when no container info comes with it;
  otherwise it is logged (\<^verbatim>\<open>klog.Errorf\<close>, which the model leaves out) and the handler
  goes on with the infos it has.\<close>

definition version2_0_handleStatsAPI ::
  "('a, 'w) Env \<Rightarrow> string list \<Rightarrow> RequestOptions \<Rightarrow> 'a Manager \<Rightarrow> 'w State
     \<Rightarrow> error option \<times> 'w State" where
  "version2_0_handleStatsAPI env request opt m s =
     (let name = getContainerName env request in
      case GetRequestedContainersInfo m name opt of
        (infos, err) \<Rightarrow>
          if err \<noteq> None \<and> length infos = 0
          then (err, called (CallGetRequestedContainersInfo name) s)
          else writeTo env (DeprecatedStatsResult (deprecatedStatsLoop env infos []))
                 (called (CallGetRequestedContainersInfo name) s))"

definition version2_0_HandleRequest ::
  "('a, 'w) Env \<Rightarrow> string \<Rightarrow> string list \<Rightarrow> 'a Manager \<Rightarrow> 'w State \<Rightarrow> Request
     \<Rightarrow> error option \<times> 'w State" where
  "version2_0_HandleRequest env requestType request m s r =
     (case GetRequestOptions env r of
        (opt, Some err) \<Rightarrow> (Some err, s)
      | (opt, None) \<Rightarrow>
          if requestType = statsAPI then version2_0_handleStatsAPI env request opt m s
          else (Some (UnknownRequestType requestType), s))"

definition version2_1_SupportedRequestTypes :: "string list" where
  "version2_1_SupportedRequestTypes = [machineStatsAPI] @ version2_0_SupportedRequestTypes"

text \<open>The loop of the stats case of v2.1 over the map \<open>conts\<close>: the entry of the root
  cgroup is skipped (\<^verbatim>\<open>continue\<close>), every other one is converted to a
  \<^verbatim>\<open>v2.ContainerInfo\<close>, here the pair of its spec and its stats.\<close>

fun contStatsLoop ::
  "('a, 'w) Env \<Rightarrow> 'a InfoMap \<Rightarrow> (string \<times> 'a \<times> 'a list) list
     \<Rightarrow> (string \<times> 'a \<times> 'a list) list" where
  "contStatsLoop env [] contStats = contStats"
| "contStatsLoop env ((name, cont) # conts) contStats =
     (if name = ''/'' then contStatsLoop env conts contStats
      else contStatsLoop env conts
             (AList.update name
                (ContainerSpecFromV1 env (Spec cont) (Aliases cont) (Namespace cont),
                 ContainerStatsFromV1 env name (Spec cont) (Stats cont))
                contStats))"

text \<open>The \<^verbatim>\<open>v2.ContainerInfo\<close> that the loop stores for an entry.\<close>

definition v2ContainerInfo :: "('a, 'w) Env \<Rightarrow> string \<Rightarrow> 'a ContainerInfo \<Rightarrow> 'a \<times> 'a list" where
  "v2ContainerInfo env name cont =
     (ContainerSpecFromV1 env (Spec cont) (Aliases cont) (Namespace cont),
      ContainerStatsFromV1 env name (Spec cont) (Stats cont))"

definition version2_1_HandleRequest ::
  "('a, 'w) Env \<Rightarrow> string \<Rightarrow> string list \<Rightarrow> 'a Manager \<Rightarrow> 'w State \<Rightarrow> Request
     \<Rightarrow> error option \<times> 'w State" where
  "version2_1_HandleRequest env requestType request m s r =
     (case GetRequestOptions env r of
        (opt, Some err) \<Rightarrow> (Some err, s)
      | (opt, None) \<Rightarrow>
          if requestType = machineStatsAPI then
            (case GetRequestedContainersInfo m ''/'' opt of
               (cont, err) \<Rightarrow>
                 if err \<noteq> None \<and> length cont = 0
                 then (err, called (CallGetRequestedContainersInfo ''/'') s)
                 else writeTo env (MachineStatsResult (MachineStatsFromV1 env (map_of cont ''/'')))
                        (called (CallGetRequestedContainersInfo ''/'') s))
          else if requestType = statsAPI then
            (let name = getContainerName env request in
             case GetRequestedContainersInfo m name opt of
               (conts, err) \<Rightarrow>
                 if err \<noteq> None \<and> length conts = 0
                 then (err, called (CallGetRequestedContainersInfo name) s)
                 else writeTo env (ContainerInfoV2Result (contStatsLoop env conts []))
                        (called (CallGetRequestedContainersInfo name) s))
          else version2_0_HandleRequest env requestType request m s r)"

section \<open>The factory registry (package container)\<close>

text \<open>The registry's own file is not among the sources: its tests are (part 000 of the
  unnamed sources). The definitions of this section follow the spec, sections 3 and 4.1;
  the mock factory follows the test file.\<close>

text \<open>Modelled from the spec: the enumeration of watch sources (package watcher, not
  among the sources), "immutable enum value {Raw, Docker, Podman, ...}".\<close>

datatype ContainerWatchSource = Raw | Docker | Podman

text \<open>Modelled from the spec: the Factory capability, "\<^verbatim>\<open>CanHandleAndAccept(name)\<close> gives
  \<^verbatim>\<open>(canHandle, canAccept, err)\<close>; \<^verbatim>\<open>NewContainerHandler(name, allowedEnvVars,
  isHostNamespace)\<close> gives \<^verbatim>\<open>(Handler, err)\<close>; \<^verbatim>\<open>String()\<close> identity; \<^verbatim>\<open>DebugInfo()\<close>".
  The handler is the type parameter \<open>'h\<close>.\<close>

record 'h ContainerHandlerFactory =
  String :: string
  DebugInfo :: "(string \<times> string list) list"
  CanHandleAndAccept :: "string \<Rightarrow> bool \<times> bool \<times> error option"
  NewContainerHandler :: "string \<Rightarrow> string list \<Rightarrow> bool \<Rightarrow> 'h option \<times> error option"

text \<open>Modelled from the spec: the registry state, "watch source to ordered sequence of
  factories".\<close>

type_synonym 'h factories = "ContainerWatchSource \<Rightarrow> 'h ContainerHandlerFactory list"

text \<open>Modelled from the spec: \<^verbatim>\<open>Clear()\<close>, "empties all lists".\<close>

definition ClearContainerHandlerFactories :: "'h factories" where
  "ClearContainerHandlerFactories = (\<lambda>watchType. [])"

text \<open>Modelled from the spec: \<^verbatim>\<open>Register(factory, watchSources)\<close>, "appends to each listed
  source's list; no de-duplication".\<close>

fun RegisterContainerHandlerFactory ::
  "'h ContainerHandlerFactory \<Rightarrow> ContainerWatchSource list \<Rightarrow> 'h factories \<Rightarrow> 'h factories" where
  "RegisterContainerHandlerFactory factory [] fs = fs"
| "RegisterContainerHandlerFactory factory (watchType # watchTypes) fs =
     RegisterContainerHandlerFactory factory watchTypes
       (fs(watchType := fs watchType @ [factory]))"

text \<open>Modelled from the spec: \<^verbatim>\<open>ReorderedList(source)\<close>, "returns the registered list with
  the factory identified as "raw" moved to the end; if none is so identified, order is
  unchanged"; and, of two factories that share that string, "both anchor last".\<close>

definition GetReorderedFactoryList ::
  "'h factories \<Rightarrow> ContainerWatchSource \<Rightarrow> 'h ContainerHandlerFactory list" where
  "GetReorderedFactoryList fs watchType =
     filter (\<lambda>f. String f \<noteq> ''raw'') (fs watchType) @
     filter (\<lambda>f. String f = ''raw'') (fs watchType)"

text \<open>The calls that dispatch makes to factories, oldest first, each with the identity of
  the factory and the container name.\<close>

datatype fcall = AskCanHandleAndAccept string string | Construct string string

text \<open>Modelled from the spec: \<^verbatim>\<open>Dispatch(name, source, allowedEnvVars, isHostNamespace)\<close>,
  "obtains the reordered list; returns the first factory with canHandle=true. No match:
  fails with a not-found error naming the container. Match with canAccept=false: returns
  (no handler, accepted=false, no error). Match with canAccept=true: invokes construction;
  any error is tagged with container name and factory identity. A CanHandleAndAccept error
  aborts dispatch immediately (fail-fast, no fallthrough to later factories)". The spec does
  not say which handler and which accepted flag come with a construction error: the model
  passes on what the factory returned.\<close>

fun dispatch ::
  "'h ContainerHandlerFactory list \<Rightarrow> string \<Rightarrow> string list \<Rightarrow> bool \<Rightarrow> fcall list
     \<Rightarrow> ('h option \<times> bool \<times> error option) \<times> fcall list" where
  "dispatch [] name allowedEnvVars isHostNamespace log =
     ((None, False, Some (NoHandlerFound name)), log)"
| "dispatch (factory # rest) name allowedEnvVars isHostNamespace log =
     (case CanHandleAndAccept factory name of
        (canHandle, canAccept, Some err) \<Rightarrow>
          ((None, False, Some err), log @ [AskCanHandleAndAccept (String factory) name])
      | (canHandle, canAccept, None) \<Rightarrow>
          if canHandle then
            (if \<not> canAccept
             then ((None, False, None), log @ [AskCanHandleAndAccept (String factory) name])
             else
               (case NewContainerHandler factory name allowedEnvVars isHostNamespace of
                  (handler, Some err) \<Rightarrow>
                    ((handler, canAccept,
                      Some (HandlerConstructionFailed name (String factory) err)),
                     log @ [AskCanHandleAndAccept (String factory) name,
                            Construct (String factory) name])
                | (handler, None) \<Rightarrow>
                    ((handler, canAccept, None),
                     log @ [AskCanHandleAndAccept (String factory) name,
                            Construct (String factory) name])))
          else dispatch rest name allowedEnvVars isHostNamespace
                 (log @ [AskCanHandleAndAccept (String factory) name]))"

definition container_NewContainerHandler ::
  "'h factories \<Rightarrow> string \<Rightarrow> ContainerWatchSource \<Rightarrow> string list \<Rightarrow> bool
     \<Rightarrow> ('h option \<times> bool \<times> error option) \<times> fcall list" where
  "container_NewContainerHandler fs name watchType allowedEnvVars isHostNamespace =
     dispatch (GetReorderedFactoryList fs watchType) name allowedEnvVars isHostNamespace []"

subsection \<open>The mock factory of the tests\<close>

text \<open>\<^verbatim>\<open>mockContainerHandlerFactory\<close> of the test file. \<open>Expected\<close> is what the test set up
  with \<^verbatim>\<open>On("NewContainerHandler", name).Return(handler, nil)\<close>; \<^verbatim>\<open>Called\<close> on a name
  the test did not set up panics, here an error.\<close>

record 'h mockContainerHandlerFactory =
  MockName :: string
  CanHandleValue :: bool
  CanAcceptValue :: bool
  Expected :: "(string \<times> 'h) list"

definition mockFactory :: "'h mockContainerHandlerFactory \<Rightarrow> 'h ContainerHandlerFactory" where
  "mockFactory f =
     \<lparr>String = MockName f,
      DebugInfo = [],
      CanHandleAndAccept = (\<lambda>name. (CanHandleValue f, CanAcceptValue f, None)),
      NewContainerHandler = (\<lambda>name metadataEnvAllowList isHostNamespace.
        case map_of (Expected f) name of
          Some h \<Rightarrow> (Some h, None)
        | None \<Rightarrow> (None, Some (Upstream ''mock: unexpected call of NewContainerHandler'')))\<rparr>"

abbreviation testContainerName :: string where "testContainerName \<equiv> ''/test''"

text \<open>The factories of the tests: \<open>allwaysNo\<close> and \<open>allwaysYes\<close> of
  \<^verbatim>\<open>TestNewContainerHandler_SecondMatches\<close> (the test sets up \<open>allwaysYes\<close> to return the
  mock container), \<open>cannotAccept\<close> of \<^verbatim>\<open>TestNewContainerHandler_Accept\<close>, and the three of
  \<^verbatim>\<open>TestRawContainerHandler_Last\<close>, whose other fields have Go's zero values.\<close>

definition allwaysNo :: "string ContainerHandlerFactory" where
  "allwaysNo = mockFactory
     \<lparr>MockName = ''no'', CanHandleValue = False, CanAcceptValue = True, Expected = []\<rparr>"

definition allwaysYes :: "string ContainerHandlerFactory" where
  "allwaysYes = mockFactory
     \<lparr>MockName = ''yes'', CanHandleValue = True, CanAcceptValue = True,
      Expected = [(testContainerName, ''mockContainer'')]\<rparr>"

definition cannotAccept :: "string ContainerHandlerFactory" where
  "cannotAccept = mockFactory
     \<lparr>MockName = ''no'', CanHandleValue = True, CanAcceptValue = False, Expected = []\<rparr>"

definition chf1 :: "string ContainerHandlerFactory" where
  "chf1 = mockFactory
     \<lparr>MockName = ''raw'', CanHandleValue = False, CanAcceptValue = False, Expected = []\<rparr>"

definition cfh2 :: "string ContainerHandlerFactory" where
  "cfh2 = mockFactory
     \<lparr>MockName = ''crio'', CanHandleValue = False, CanAcceptValue = False, Expected = []\<rparr>"

definition cfh3 :: "string ContainerHandlerFactory" where
  "cfh3 = mockFactory
     \<lparr>MockName = ''containerd'', CanHandleValue = False, CanAcceptValue = False, Expected = []\<rparr>"

text \<open>A factory whose \<open>CanHandleAndAccept\<close> fails, as one that cannot reach its runtime.\<close>

definition failingFactory :: "string ContainerHandlerFactory" where
  "failingFactory =
     \<lparr>String = ''docker'',
      DebugInfo = [],
      CanHandleAndAccept = (\<lambda>name. (False, False, Some (Upstream ''cannot reach the daemon''))),
      NewContainerHandler = (\<lambda>name allowedEnvVars isHostNamespace.
        (None, Some (Upstream ''cannot reach the daemon'')))\<rparr>"

text \<open>The calls to \<open>CanHandleAndAccept\<close> that consulting a list of factories in order
  leaves in the log.\<close>

definition asked :: "'h ContainerHandlerFactory list \<Rightarrow> string \<Rightarrow> fcall list" where
  "asked factories name = map (\<lambda>f. AskCanHandleAndAccept (String f) name) factories"

text \<open>A sequence of \<^verbatim>\<open>Register\<close> calls, each with its factory and its watch sources, and
  the factories such a sequence registers for one watch source, in the order of the
  calls (a source that a call lists twice gets the factory twice).\<close>

fun registerAll ::
  "('h ContainerHandlerFactory \<times> ContainerWatchSource list) list \<Rightarrow> 'h factories \<Rightarrow> 'h factories" where
  "registerAll [] fs = fs"
| "registerAll ((factory, watchTypes) # regs) fs =
     registerAll regs (RegisterContainerHandlerFactory factory watchTypes fs)"

definition registeredFor ::
  "ContainerWatchSource \<Rightarrow> ('h ContainerHandlerFactory \<times> ContainerWatchSource list) list
     \<Rightarrow> 'h ContainerHandlerFactory list" where
  "registeredFor watchType regs =
     concat (map (\<lambda>(factory, watchTypes). replicate (count_list watchTypes watchType) factory) regs)"

section \<open>Concrete inputs\<close>

text \<open>An environment, a Manager and a request on which the handlers can be run. The
  response writer is the list of the results written so far. \<open>strconv_Atoi\<close> follows Go's
  \<^verbatim>\<open>strconv.Atoi\<close> for a 64-bit \<^verbatim>\<open>int\<close>: an optional sign, then one decimal digit or
  more, and a value from \<open>- 2 ^ 63\<close> to \<open>2 ^ 63 - 1\<close>. \<open>secondsDuration\<close> is the part of
  \<^verbatim>\<open>time.ParseDuration\<close> that reads whole seconds, as in \<^verbatim>\<open>90s\<close>.\<close>

definition digitValue :: "char \<Rightarrow> nat option" where
  "digitValue c = map_of (zip ''0123456789'' [0, 1, 2, 3, 4, 5, 6, 7, 8, 9]) c"

fun parseDigits :: "string \<Rightarrow> nat \<Rightarrow> nat option" where
  "parseDigits [] n = Some n"
| "parseDigits (c # cs) n =
     (case digitValue c of None \<Rightarrow> None | Some d \<Rightarrow> parseDigits cs (10 * n + d))"

definition strconv_Atoi :: "string \<Rightarrow> int \<times> error option" where
  "strconv_Atoi s =
     (let neg = (take 1 s = ''-'');
          digits = (if take 1 s = ''-'' \<or> take 1 s = ''+'' then drop 1 s else s)
      in if digits = [] then (0, Some (Upstream ''strconv.Atoi: invalid syntax''))
         else case parseDigits digits 0 of
                None \<Rightarrow> (0, Some (Upstream ''strconv.Atoi: invalid syntax''))
              | Some n \<Rightarrow>
                  if neg
                  then (if int n \<le> 2 ^ 63 then (- int n, None)
                        else (- (2 ^ 63), Some (Upstream ''strconv.Atoi: value out of range'')))
                  else (if int n < 2 ^ 63 then (int n, None)
                        else (2 ^ 63 - 1, Some (Upstream ''strconv.Atoi: value out of range''))))"

definition secondsDuration :: "string \<Rightarrow> int \<times> error option" where
  "secondsDuration s =
     (if 2 \<le> length s \<and> last s = CHR ''s''
      then (case parseDigits (butlast s) 0 of
              Some n \<Rightarrow> (int n * 1000000000, None)
            | None \<Rightarrow> (0, Some (Upstream ''time: invalid duration'')))
      else (0, Some (Upstream ''time: invalid duration'')))"

definition testEnv :: "(string, string result list) Env" where
  "testEnv =
     \<lparr>getContainerName = (\<lambda>request. concat (map (\<lambda>segment. ''/'' @ segment) request)),
      getContainerInfoRequest = (\<lambda>body.
        if body = ''{'' then ([], Some (Upstream ''unexpected end of JSON input''))
        else (body, None)),
      getEventRequest = (\<lambda>r. (\<lparr>ContainerName = [], EventFilter = Body r\<rparr>, False, None)),
      writeResult = (\<lambda>x w. (None, w @ [x])),
      streamResults = (\<lambda>eventChannel w r m. (None, w)),
      pathJoin = (\<lambda>a b. b),
      Atoi = strconv_Atoi,
      ParseDuration = secondsDuration,
      DeprecatedStatsFromV1 = (\<lambda>cinfo. Stats cinfo),
      MachineStatsFromV1 = (\<lambda>cinfo. case cinfo of None \<Rightarrow> [] | Some c \<Rightarrow> Stats c),
      ContainerSpecFromV1 = (\<lambda>spec aliases namespace. spec),
      ContainerStatsFromV1 = (\<lambda>name spec stats. stats)\<rparr>"

definition testInfo :: "string \<Rightarrow> string ContainerInfo" where
  "testInfo name =
     \<lparr>Name = name, Aliases = [], Namespace = [], Spec = ''spec'', Stats = [''sample'']\<rparr>"

text \<open>A Manager that knows every container by name; what it answers to
  \<open>GetRequestedContainersInfo\<close> is the parameter.\<close>

definition testManager :: "string InfoMap \<times> error option \<Rightarrow> string Manager" where
  "testManager requested =
     \<lparr>GetMachineInfo = (''machine'', None),
      GetContainerInfo = (\<lambda>name query. (testInfo name, None)),
      SubcontainersInfo = (\<lambda>name query. ([testInfo name], None)),
      AllDockerContainers = (\<lambda>query. ([(''/docker/a'', testInfo ''/docker/a'')], None)),
      DockerContainer = (\<lambda>name query. (testInfo (''/docker/'' @ name), None)),
      GetPastEvents = (\<lambda>query. ([], None)),
      WatchForEvents = (\<lambda>query. (''channel'', None)),
      GetRequestedContainersInfo = (\<lambda>name opt. requested)\<rparr>"

definition emptyState :: "string result list State" where
  "emptyState = \<lparr>writer = [], calls = []\<rparr>"

text \<open>A request with the given query parameters, one value each, and an empty body.\<close>

definition testRequest :: "(string \<times> string) list \<Rightarrow> Request" where
  "testRequest params =
     \<lparr>URLQuery = (\<lambda>key. case map_of params key of None \<Rightarrow> [] | Some v \<Rightarrow> [v]), Body = []\<rparr>"

section \<open>Properties of the version chain\<close>

text \<open>C5. Along each chain the supported request types only grow:
  \<open>{containers, machine}\<close> is within v1.0, v1.1 is v1.0 and \<open>subcontainers\<close>, v1.2 is v1.1
  and \<open>docker\<close>, v1.3 is v1.2 and \<open>events\<close>, and v2.1 contains v2.0 (it adds
  \<open>machinestats\<close>).\<close>

theorem SupportedRequestTypes_monotone:
  "{containersAPI, machineAPI} \<subseteq> set version1_0_SupportedRequestTypes
   \<and> set version1_0_SupportedRequestTypes \<subseteq> set version1_1_SupportedRequestTypes
   \<and> set version1_1_SupportedRequestTypes = set version1_0_SupportedRequestTypes \<union> {subcontainersAPI}
   \<and> set version1_1_SupportedRequestTypes \<subseteq> set version1_2_SupportedRequestTypes
   \<and> set version1_2_SupportedRequestTypes = set version1_1_SupportedRequestTypes \<union> {dockerAPI}
   \<and> set version1_2_SupportedRequestTypes \<subseteq> set version1_3_SupportedRequestTypes
   \<and> set version1_3_SupportedRequestTypes = set version1_2_SupportedRequestTypes \<union> {eventsAPI}
   \<and> set version2_0_SupportedRequestTypes \<subseteq> set version2_1_SupportedRequestTypes
   \<and> set version2_1_SupportedRequestTypes = set version2_0_SupportedRequestTypes \<union> {machineStatsAPI}"
  unfolding version1_0_SupportedRequestTypes_def version1_1_SupportedRequestTypes_def
    version1_2_SupportedRequestTypes_def version1_3_SupportedRequestTypes_def
    version2_1_SupportedRequestTypes_def
  by auto

subsection \<open>Helper facts\<close>

lemma GetRequestOptions_empty_query:
  "GetRequestOptions env (testRequest []) =
     (\<lparr>IdType = TypeName, Count = 64, Recursive = False, MaxAge = None\<rparr>, None)"
  by (simp add: GetRequestOptions_def Get_def testRequest_def)

lemma v1_1_default:
  "requestType \<noteq> subcontainersAPI \<Longrightarrow>
   version1_1_HandleRequest env requestType request m s r =
   version1_0_HandleRequest env requestType request m s r"
  by (simp add: version1_1_HandleRequest_def)

lemma v1_2_default:
  "requestType \<noteq> dockerAPI \<Longrightarrow>
   version1_2_HandleRequest env requestType request m s r =
   version1_1_HandleRequest env requestType request m s r"
  by (simp add: version1_2_HandleRequest_def)

lemma v1_3_default:
  "requestType \<noteq> eventsAPI \<Longrightarrow>
   version1_3_HandleRequest env requestType request m s r =
   version1_2_HandleRequest env requestType request m s r"
  by (simp add: version1_3_HandleRequest_def)

lemma v1_0_unknown:
  "requestType \<noteq> machineAPI \<Longrightarrow> requestType \<noteq> containersAPI \<Longrightarrow>
   version1_0_HandleRequest env requestType request m s r =
   (Some (UnknownRequestType requestType), s)"
  by (simp add: version1_0_HandleRequest_def)

lemma v2_1_default:
  "requestType \<noteq> machineStatsAPI \<Longrightarrow> requestType \<noteq> statsAPI \<Longrightarrow>
   version2_1_HandleRequest env requestType request m s r =
   version2_0_HandleRequest env requestType request m s r"
  by (simp add: version2_1_HandleRequest_def version2_0_HandleRequest_def
      split: prod.splits option.splits)

lemma v1_3_types:
  "set version1_3_SupportedRequestTypes =
     {containersAPI, machineAPI, subcontainersAPI, dockerAPI, eventsAPI}"
  by (auto simp: version1_3_SupportedRequestTypes_def version1_2_SupportedRequestTypes_def
      version1_1_SupportedRequestTypes_def version1_0_SupportedRequestTypes_def)

subsection \<open>What v2.0 handles\<close>

text \<open>C1. The claim is that \<open>HandleRequest\<close> of v2.0 handles every request type that
  \<open>SupportedRequestTypes\<close> of v2.0 lists. The code does not: the switch of
  \<open>HandleRequest\<close> has the single case \<open>stats\<close>, and each of the other nine listed types
  (\<open>version\<close>, \<open>attributes\<close>, \<open>events\<close>, \<open>machine\<close>, \<open>summary\<close>, \<open>spec\<close>, \<open>storage\<close>, \<open>ps\<close>,
  \<open>appmetrics\<close>) falls to the default case: once the request options have parsed, the
  handler returns the unknown-request-type error and leaves writer and Manager alone.\<close>

theorem version2_0_advertised_unhandled:
  assumes "requestType \<in> set version2_0_SupportedRequestTypes"
    and "requestType \<noteq> statsAPI"
    and "snd (GetRequestOptions env r) = None"
  shows "version2_0_HandleRequest env requestType request m s r =
           (Some (UnknownRequestType requestType), s)"
  using assms(2,3)
  by (cases "GetRequestOptions env r") (simp add: version2_0_HandleRequest_def)

text \<open>The request \<^verbatim>\<open>/api/v2.0/version\<close> with no query parameter.\<close>

theorem version2_0_advertised_unhandled_witness:
  "versionAPI \<in> set version2_0_SupportedRequestTypes
   \<and> snd (GetRequestOptions testEnv (testRequest [])) = None
   \<and> version2_0_HandleRequest testEnv versionAPI [] (testManager ([], None)) emptyState
        (testRequest []) = (Some (UnknownRequestType versionAPI), emptyState)"
proof -
  have a: "versionAPI \<in> set version2_0_SupportedRequestTypes"
    by (simp add: version2_0_SupportedRequestTypes_def)
  have b: "versionAPI \<noteq> statsAPI" by simp
  have c: "snd (GetRequestOptions testEnv (testRequest [])) = None"
    by (simp add: GetRequestOptions_empty_query)
  show ?thesis
    using a c version2_0_advertised_unhandled [OF a b c] by simp
qed

subsection \<open>Delegation along the chains\<close>

text \<open>C6, as amended. Each revision of the v1 chain hands every request type other than
  the one it introduces to its predecessor, with the same arguments and so with the same
  outcome: v1.1 all but \<open>subcontainers\<close>, v1.2 all but \<open>docker\<close>, v1.3 all but \<open>events\<close>.
  A type that no revision of the chain lists comes down to v1.0, which returns the
  unknown-request-type error and changes nothing. In the v2 chain, v2.1 has the outcome
  of v2.0 for every type other than \<open>machinestats\<close> and \<open>stats\<close>: \<open>stats\<close>, which v2.0
  introduced, is a case of v2.1's own switch.\<close>

theorem HandleRequest_delegation:
  "(requestType \<noteq> subcontainersAPI \<longrightarrow>
      version1_1_HandleRequest env requestType request m s r =
      version1_0_HandleRequest env requestType request m s r)
   \<and> (requestType \<noteq> dockerAPI \<longrightarrow>
      version1_2_HandleRequest env requestType request m s r =
      version1_1_HandleRequest env requestType request m s r)
   \<and> (requestType \<noteq> eventsAPI \<longrightarrow>
      version1_3_HandleRequest env requestType request m s r =
      version1_2_HandleRequest env requestType request m s r)
   \<and> (requestType \<notin> set version1_3_SupportedRequestTypes \<longrightarrow>
      version1_3_HandleRequest env requestType request m s r =
        version1_0_HandleRequest env requestType request m s r
      \<and> version1_0_HandleRequest env requestType request m s r =
        (Some (UnknownRequestType requestType), s))
   \<and> (requestType \<noteq> machineStatsAPI \<and> requestType \<noteq> statsAPI \<longrightarrow>
      version2_1_HandleRequest env requestType request m s r =
      version2_0_HandleRequest env requestType request m s r)"
  by (simp add: v1_1_default v1_2_default v1_3_default v1_0_unknown v2_1_default v1_3_types)

theorem HandleRequest_delegation_witness:
  "version1_1_HandleRequest testEnv machineAPI [] (testManager ([], None)) emptyState (testRequest [])
     = version1_0_HandleRequest testEnv machineAPI [] (testManager ([], None)) emptyState (testRequest [])
   \<and> version1_2_HandleRequest testEnv machineAPI [] (testManager ([], None)) emptyState (testRequest [])
     = version1_1_HandleRequest testEnv machineAPI [] (testManager ([], None)) emptyState (testRequest [])
   \<and> version1_3_HandleRequest testEnv machineAPI [] (testManager ([], None)) emptyState (testRequest [])
     = version1_2_HandleRequest testEnv machineAPI [] (testManager ([], None)) emptyState (testRequest [])
   \<and> ''bogus'' \<notin> set version1_3_SupportedRequestTypes
   \<and> version1_3_HandleRequest testEnv ''bogus'' [] (testManager ([], None)) emptyState (testRequest [])
     = (Some (UnknownRequestType ''bogus''), emptyState)
   \<and> version2_1_HandleRequest testEnv specAPI [] (testManager ([], None)) emptyState (testRequest [])
     = version2_0_HandleRequest testEnv specAPI [] (testManager ([], None)) emptyState (testRequest [])"
  using HandleRequest_delegation [of machineAPI testEnv "[]" "testManager ([], None)" emptyState "testRequest []"]
    HandleRequest_delegation [of "''bogus''" testEnv "[]" "testManager ([], None)" emptyState "testRequest []"]
    HandleRequest_delegation [of specAPI testEnv "[]" "testManager ([], None)" emptyState "testRequest []"]
  by (simp add: v1_3_types)

text \<open>C6 as stated fails at v2.1: \<open>stats\<close> is not a type that v2.1 introduces (v2.1 adds
  \<open>machinestats\<close> alone to the types of v2.0), and v2.1 does not hand it to v2.0. On a
  Manager that reports the root cgroup only, v2.1 writes an empty map of
  \<^verbatim>\<open>v2.ContainerInfo\<close>, v2.0 the deprecated stats of \<^verbatim>\<open>/\<close>.\<close>

theorem v2_1_stats_not_delegated:
  "set version2_1_SupportedRequestTypes - set version2_0_SupportedRequestTypes = {machineStatsAPI}
   \<and> statsAPI \<in> set version2_0_SupportedRequestTypes
   \<and> version2_1_HandleRequest testEnv statsAPI []
        (testManager ([(''/'', testInfo ''/'')], None)) emptyState (testRequest [])
      = (None, \<lparr>writer = [ContainerInfoV2Result []],
                calls = [CallGetRequestedContainersInfo []]\<rparr>)
   \<and> version2_0_HandleRequest testEnv statsAPI []
        (testManager ([(''/'', testInfo ''/'')], None)) emptyState (testRequest [])
      = (None, \<lparr>writer = [DeprecatedStatsResult [(''/'', [''sample''])]],
                calls = [CallGetRequestedContainersInfo []]\<rparr>)
   \<and> version2_1_HandleRequest testEnv statsAPI []
        (testManager ([(''/'', testInfo ''/'')], None)) emptyState (testRequest [])
      \<noteq> version2_0_HandleRequest testEnv statsAPI []
        (testManager ([(''/'', testInfo ''/'')], None)) emptyState (testRequest [])"
  by (simp add: version2_1_SupportedRequestTypes_def version2_0_SupportedRequestTypes_def
       version2_1_HandleRequest_def version2_0_HandleRequest_def version2_0_handleStatsAPI_def
       GetRequestOptions_empty_query testEnv_def testManager_def testInfo_def emptyState_def
       writeTo_def called_def insert_Diff_if)

text \<open>C7. In the v1 chain a request type gives the same outcome (the error returned, what
  is written, the calls to the Manager) on the revision that introduces it and on every
  later revision, for all arguments: \<open>containers\<close> and \<open>machine\<close> of v1.0 on v1.1, v1.2
  and v1.3; \<open>subcontainers\<close> of v1.1 on v1.2 and v1.3; \<open>docker\<close> of v1.2 on v1.3. (\<open>events\<close>
  is introduced by v1.3, the last revision.)\<close>

theorem v1_chain_transparent:
  "version1_1_HandleRequest env containersAPI request m s r =
     version1_0_HandleRequest env containersAPI request m s r
   \<and> version1_2_HandleRequest env containersAPI request m s r =
     version1_0_HandleRequest env containersAPI request m s r
   \<and> version1_3_HandleRequest env containersAPI request m s r =
     version1_0_HandleRequest env containersAPI request m s r
   \<and> version1_1_HandleRequest env machineAPI request m s r =
     version1_0_HandleRequest env machineAPI request m s r
   \<and> version1_2_HandleRequest env machineAPI request m s r =
     version1_0_HandleRequest env machineAPI request m s r
   \<and> version1_3_HandleRequest env machineAPI request m s r =
     version1_0_HandleRequest env machineAPI request m s r
   \<and> version1_2_HandleRequest env subcontainersAPI request m s r =
     version1_1_HandleRequest env subcontainersAPI request m s r
   \<and> version1_3_HandleRequest env subcontainersAPI request m s r =
     version1_1_HandleRequest env subcontainersAPI request m s r
   \<and> version1_3_HandleRequest env dockerAPI request m s r =
     version1_2_HandleRequest env dockerAPI request m s r"
  by (simp add: version1_3_HandleRequest_def version1_2_HandleRequest_def
      version1_1_HandleRequest_def)

subsection \<open>Errors of the Manager in the stats handlers\<close>

text \<open>C8, as amended. For a stats request on v2.0 or v2.1 whose options have parsed: if
  \<open>GetRequestedContainersInfo\<close> returns an error and no container info, the handler
  returns that very error and writes nothing; if it returns an error together with one
  container info or more, the handler does not return the error: it writes the stats of
  the infos it got, and what it returns is what writing returned.\<close>

theorem stats_manager_error:
  assumes opts: "GetRequestOptions env r = (opt, None)"
    and mgr: "GetRequestedContainersInfo m (getContainerName env request) opt = (infos, Some err)"
  shows "(infos = [] \<longrightarrow>
            version2_0_HandleRequest env statsAPI request m s r =
              (Some err, called (CallGetRequestedContainersInfo (getContainerName env request)) s)
          \<and> version2_1_HandleRequest env statsAPI request m s r =
              (Some err, called (CallGetRequestedContainersInfo (getContainerName env request)) s))
       \<and> (infos \<noteq> [] \<longrightarrow>
            version2_0_HandleRequest env statsAPI request m s r =
              writeTo env (DeprecatedStatsResult (deprecatedStatsLoop env infos []))
                (called (CallGetRequestedContainersInfo (getContainerName env request)) s)
          \<and> version2_1_HandleRequest env statsAPI request m s r =
              writeTo env (ContainerInfoV2Result (contStatsLoop env infos []))
                (called (CallGetRequestedContainersInfo (getContainerName env request)) s))"
  using opts mgr
  by (simp add: version2_0_HandleRequest_def version2_1_HandleRequest_def
      version2_0_handleStatsAPI_def)

theorem stats_manager_error_witness:
  "GetRequestOptions testEnv (testRequest []) =
     (\<lparr>IdType = TypeName, Count = 64, Recursive = False, MaxAge = None\<rparr>, None)
   \<and> version2_0_HandleRequest testEnv statsAPI [''a'']
        (testManager ([], Some (Upstream ''unknown container''))) emptyState (testRequest [])
      = (Some (Upstream ''unknown container''),
         \<lparr>writer = [], calls = [CallGetRequestedContainersInfo ''/a'']\<rparr>)
   \<and> version2_1_HandleRequest testEnv statsAPI [''a'']
        (testManager ([], Some (Upstream ''unknown container''))) emptyState (testRequest [])
      = (Some (Upstream ''unknown container''),
         \<lparr>writer = [], calls = [CallGetRequestedContainersInfo ''/a'']\<rparr>)
   \<and> version2_0_HandleRequest testEnv statsAPI [''a'']
        (testManager ([(''/a'', testInfo ''/a'')], Some (Upstream ''partial failure'')))
        emptyState (testRequest [])
      = (None, \<lparr>writer = [DeprecatedStatsResult [(''/a'', [''sample''])]],
                calls = [CallGetRequestedContainersInfo ''/a'']\<rparr>)
   \<and> version2_1_HandleRequest testEnv statsAPI [''a'']
        (testManager ([(''/a'', testInfo ''/a'')], Some (Upstream ''partial failure'')))
        emptyState (testRequest [])
      = (None, \<lparr>writer = [ContainerInfoV2Result [(''/a'', ''spec'', [''sample''])]],
                calls = [CallGetRequestedContainersInfo ''/a'']\<rparr>)"
proof -
  let ?opt = "\<lparr>IdType = TypeName, Count = 64, Recursive = False, MaxAge = None\<rparr>"
  have o: "GetRequestOptions testEnv (testRequest []) = (?opt, None)"
    by (rule GetRequestOptions_empty_query)
  have m1: "GetRequestedContainersInfo (testManager ([], Some (Upstream ''unknown container'')))
              (getContainerName testEnv [''a'']) ?opt = ([], Some (Upstream ''unknown container''))"
    by (simp add: testManager_def)
  have m2: "GetRequestedContainersInfo
              (testManager ([(''/a'', testInfo ''/a'')], Some (Upstream ''partial failure'')))
              (getContainerName testEnv [''a'']) ?opt
            = ([(''/a'', testInfo ''/a'')], Some (Upstream ''partial failure''))"
    by (simp add: testManager_def)
  show ?thesis
    using o stats_manager_error [OF o m1, of emptyState] stats_manager_error [OF o m2, of emptyState]
    by (simp add: testEnv_def testInfo_def emptyState_def writeTo_def called_def)
qed

text \<open>C8 as stated fails when container infos come with the error: the Manager returns
  the info of one container and an error, and both handlers return no error.\<close>

theorem stats_manager_error_swallowed:
  "GetRequestedContainersInfo
     (testManager ([(''/a'', testInfo ''/a'')], Some (Upstream ''partial failure'')))
     (getContainerName testEnv [''a''])
     (fst (GetRequestOptions testEnv (testRequest [])))
     = ([(''/a'', testInfo ''/a'')], Some (Upstream ''partial failure''))
   \<and> fst (version2_0_HandleRequest testEnv statsAPI [''a'']
        (testManager ([(''/a'', testInfo ''/a'')], Some (Upstream ''partial failure'')))
        emptyState (testRequest [])) = None
   \<and> fst (version2_1_HandleRequest testEnv statsAPI [''a'']
        (testManager ([(''/a'', testInfo ''/a'')], Some (Upstream ''partial failure'')))
        emptyState (testRequest [])) = None"
  by (simp add: version2_0_HandleRequest_def version2_1_HandleRequest_def
      version2_0_handleStatsAPI_def GetRequestOptions_empty_query testEnv_def testManager_def
      testInfo_def emptyState_def writeTo_def called_def)

subsection \<open>The stats map of v2.1\<close>

lemma contStatsLoop_keys:
  "fst ` set (contStatsLoop env conts acc) = fst ` set acc \<union> (fst ` set conts - {''/''})"
proof (induction conts arbitrary: acc)
  case Nil
  then show ?case by simp
next
  case (Cons p conts)
  obtain name cont where p: "p = (name, cont)" by (cases p)
  show ?case
    unfolding p using Cons.IH by (auto simp: dom_update)
qed

lemma contStatsLoop_distinct:
  "distinct (map fst acc) \<Longrightarrow> distinct (map fst (contStatsLoop env conts acc))"
proof (induction conts arbitrary: acc)
  case Nil
  then show ?case by simp
next
  case (Cons p conts)
  obtain name cont where p: "p = (name, cont)" by (cases p)
  show ?case
    unfolding p using Cons by (simp add: distinct_update)
qed

lemma contStatsLoop_map_of:
  "distinct (map fst conts) \<Longrightarrow> k \<noteq> ''/'' \<Longrightarrow>
   map_of (contStatsLoop env conts acc) k =
     (case map_of conts k of Some cont \<Rightarrow> Some (v2ContainerInfo env k cont) | None \<Rightarrow> map_of acc k)"
proof (induction conts arbitrary: acc)
  case Nil
  then show ?case by simp
next
  case (Cons p conts)
  obtain name cont where p: "p = (name, cont)" by (cases p)
  have d: "distinct (map fst conts)" and nin: "name \<notin> fst ` set conts"
    using Cons.prems(1) by (auto simp: p)
  have none: "k = name \<Longrightarrow> map_of conts k = None"
    using nin by (simp add: map_of_eq_None_iff)
  show ?case
  proof (cases "name = ''/''")
    case True
    then show ?thesis
      using Cons.IH [OF d Cons.prems(2)] Cons.prems(2) by (simp add: p)
  next
    case False
    then show ?thesis
      using Cons.IH [OF d Cons.prems(2)] none
      by (auto simp: p update_conv' v2ContainerInfo_def split: option.splits)
  qed
qed

text \<open>C9. For a stats request on v2.1 whose options have parsed, whatever map of container
  infos the Manager returns: unless the Manager returned an error and an empty map (then
  the error is returned and nothing is written), the handler writes the map that the
  loop builds, and this map never has the key \<^verbatim>\<open>/\<close>; its keys are the keys of the
  Manager's map other than \<^verbatim>\<open>/\<close>, each once, and each of them is bound to the conversion
  of its own entry.\<close>

theorem v2_1_stats_skips_root:
  assumes opts: "GetRequestOptions env r = (opt, None)"
    and mgr: "GetRequestedContainersInfo m (getContainerName env request) opt = (conts, err)"
  shows "(err \<noteq> None \<and> conts = [] \<longrightarrow>
            version2_1_HandleRequest env statsAPI request m s r =
              (err, called (CallGetRequestedContainersInfo (getContainerName env request)) s))
       \<and> (err = None \<or> conts \<noteq> [] \<longrightarrow>
            version2_1_HandleRequest env statsAPI request m s r =
              writeTo env (ContainerInfoV2Result (contStatsLoop env conts []))
                (called (CallGetRequestedContainersInfo (getContainerName env request)) s))
       \<and> ''/'' \<notin> fst ` set (contStatsLoop env conts [])
       \<and> map_of (contStatsLoop env conts []) ''/'' = None
       \<and> fst ` set (contStatsLoop env conts []) = fst ` set conts - {''/''}
       \<and> distinct (map fst (contStatsLoop env conts []))
       \<and> (distinct (map fst conts) \<longrightarrow>
            (\<forall>name. name \<noteq> ''/'' \<longrightarrow>
               map_of (contStatsLoop env conts []) name =
                 map_option
                   (\<lambda>cont. (ContainerSpecFromV1 env (Spec cont) (Aliases cont) (Namespace cont),
                             ContainerStatsFromV1 env name (Spec cont) (Stats cont)))
                   (map_of conts name)))"
proof -
  have stop: "version2_1_HandleRequest env statsAPI request m s r =
           (err, called (CallGetRequestedContainersInfo (getContainerName env request)) s)"
    if "err \<noteq> None" "conts = []"
    using opts mgr that by (auto simp: version2_1_HandleRequest_def)
  have run: "version2_1_HandleRequest env statsAPI request m s r =
           writeTo env (ContainerInfoV2Result (contStatsLoop env conts []))
             (called (CallGetRequestedContainersInfo (getContainerName env request)) s)"
    if "err = None \<or> conts \<noteq> []"
    using opts mgr that by (auto simp: version2_1_HandleRequest_def)
  have keys: "fst ` set (contStatsLoop env conts []) = fst ` set conts - {''/''}"
    by (simp add: contStatsLoop_keys)
  have root: "''/'' \<notin> fst ` set (contStatsLoop env conts [])"
    unfolding keys by simp
  have root': "map_of (contStatsLoop env conts []) ''/'' = None"
    using root by (simp add: map_of_eq_None_iff)
  have dist: "distinct (map fst (contStatsLoop env conts []))"
    by (rule contStatsLoop_distinct) simp
  have others: "map_of (contStatsLoop env conts []) name =
                 map_option
                   (\<lambda>cont. (ContainerSpecFromV1 env (Spec cont) (Aliases cont) (Namespace cont),
                             ContainerStatsFromV1 env name (Spec cont) (Stats cont)))
                   (map_of conts name)"
    if "distinct (map fst conts)" "name \<noteq> ''/''" for name
    using contStatsLoop_map_of [OF that, of env "[]"]
    by (simp add: v2ContainerInfo_def split: option.splits)
  have c1: "err \<noteq> None \<and> conts = [] \<longrightarrow>
            version2_1_HandleRequest env statsAPI request m s r =
              (err, called (CallGetRequestedContainersInfo (getContainerName env request)) s)"
    using stop by simp
  have c2: "err = None \<or> conts \<noteq> [] \<longrightarrow>
            version2_1_HandleRequest env statsAPI request m s r =
              writeTo env (ContainerInfoV2Result (contStatsLoop env conts []))
                (called (CallGetRequestedContainersInfo (getContainerName env request)) s)"
    using run by simp
  have c7: "distinct (map fst conts) \<longrightarrow>
            (\<forall>name. name \<noteq> ''/'' \<longrightarrow>
               map_of (contStatsLoop env conts []) name =
                 map_option
                   (\<lambda>cont. (ContainerSpecFromV1 env (Spec cont) (Aliases cont) (Namespace cont),
                             ContainerStatsFromV1 env name (Spec cont) (Stats cont)))
                   (map_of conts name))"
    using others by simp
  show ?thesis
    by (intro conjI c1 c2 root root' keys dist c7)
qed

text \<open>The Manager returns the root cgroup and two containers.\<close>

theorem v2_1_stats_skips_root_witness:
  "GetRequestOptions testEnv (testRequest []) =
     (\<lparr>IdType = TypeName, Count = 64, Recursive = False, MaxAge = None\<rparr>, None)
   \<and> distinct (map fst [(''/'', testInfo ''/''), (''/a'', testInfo ''/a''), (''/b'', testInfo ''/b'')])
   \<and> version2_1_HandleRequest testEnv statsAPI []
        (testManager ([(''/'', testInfo ''/''), (''/a'', testInfo ''/a''), (''/b'', testInfo ''/b'')], None))
        emptyState (testRequest [])
      = (None, \<lparr>writer = [ContainerInfoV2Result
                   [(''/a'', ''spec'', [''sample'']), (''/b'', ''spec'', [''sample''])]],
                calls = [CallGetRequestedContainersInfo []]\<rparr>)
   \<and> map_of (contStatsLoop testEnv
        [(''/'', testInfo ''/''), (''/a'', testInfo ''/a''), (''/b'', testInfo ''/b'')] []) ''/'' = None
   \<and> map_of (contStatsLoop testEnv
        [(''/'', testInfo ''/''), (''/a'', testInfo ''/a''), (''/b'', testInfo ''/b'')] []) ''/b''
      = Some (''spec'', [''sample''])"
proof -
  let ?opt = "\<lparr>IdType = TypeName, Count = 64, Recursive = False, MaxAge = None\<rparr>"
  let ?conts = "[(''/'', testInfo ''/''), (''/a'', testInfo ''/a''), (''/b'', testInfo ''/b'')]"
  have o: "GetRequestOptions testEnv (testRequest []) = (?opt, None)"
    by (rule GetRequestOptions_empty_query)
  have m: "GetRequestedContainersInfo (testManager (?conts, None))
             (getContainerName testEnv []) ?opt = (?conts, None)"
    by (simp add: testManager_def)
  have d: "distinct (map fst ?conts)" by simp
  have n: "''/b'' \<noteq> ''/''" by simp
  note t = v2_1_stats_skips_root [OF o m, of emptyState]
  from t have v: "map_of (contStatsLoop testEnv ?conts []) ''/b'' =
     map_option (\<lambda>cont. (ContainerSpecFromV1 testEnv (Spec cont) (Aliases cont) (Namespace cont),
                          ContainerStatsFromV1 testEnv ''/b'' (Spec cont) (Stats cont)))
       (map_of ?conts ''/b'')"
    using d n by blast
  show ?thesis
    using o d t v
    by (simp add: testEnv_def testInfo_def emptyState_def writeTo_def called_def)
qed

subsection \<open>The docker request of v1.2\<close>

text \<open>C10, as amended. For the docker request type of v1.2, when the request body decodes
  to a query: a path of exactly one empty segment is treated as the empty path, the
  handler asks the Manager for all Docker containers and writes them; a path of exactly
  one non-empty segment asks the Manager for that container and writes a map of one
  entry, the container under the name its info carries; a path of two segments or more
  returns the unknown-request error, and the handler has called no Manager method and
  written nothing. When the body does not decode, the handler returns the decoding error
  for every path, again with no call and nothing written.\<close>

theorem docker_request_paths:
  "(getContainerInfoRequest env (Body r) = (query, None) \<longrightarrow>
      version1_2_HandleRequest env dockerAPI [[]] m s r =
        version1_2_HandleRequest env dockerAPI [] m s r
      \<and> version1_2_HandleRequest env dockerAPI [[]] m s r =
        (case AllDockerContainers m query of
           (containers, Some err) \<Rightarrow>
             (Some (FailedGetAllDocker err), called CallAllDockerContainers s)
         | (containers, None) \<Rightarrow>
             writeTo env (DockerResult containers) (called CallAllDockerContainers s))
      \<and> (name \<noteq> [] \<longrightarrow>
          version1_2_HandleRequest env dockerAPI [name] m s r =
            (case DockerContainer m name query of
               (cont, Some err) \<Rightarrow>
                 (Some (FailedGetDocker name err), called (CallDockerContainer name) s)
             | (cont, None) \<Rightarrow>
                 writeTo env (DockerResult [(Name cont, cont)])
                   (called (CallDockerContainer name) s)))
      \<and> (2 \<le> length request \<longrightarrow>
          version1_2_HandleRequest env dockerAPI request m s r =
            (Some (UnknownDockerRequest request), s)))
   \<and> (getContainerInfoRequest env (Body r) = (query, Some err) \<longrightarrow>
      version1_2_HandleRequest env dockerAPI request m s r = (Some err, s))"
proof -
  have two: "2 \<le> length request \<Longrightarrow> \<exists>a b rest. request = a # b # rest"
    by (cases request; cases "tl request") auto
  show ?thesis
    using two by (auto simp: version1_2_HandleRequest_def)
qed

text \<open>The paths \<^verbatim>\<open>docker/\<close>, \<^verbatim>\<open>docker/abc\<close> and \<^verbatim>\<open>docker/abc/d\<close> with a body that decodes, and
  \<^verbatim>\<open>docker/abc\<close> with one that does not.\<close>

theorem docker_request_paths_witness:
  "getContainerInfoRequest testEnv (Body (testRequest [])) = ([], None)
   \<and> version1_2_HandleRequest testEnv dockerAPI [[]] (testManager ([], None)) emptyState
        (testRequest [])
      = (None, \<lparr>writer = [DockerResult [(''/docker/a'', testInfo ''/docker/a'')]],
                calls = [CallAllDockerContainers]\<rparr>)
   \<and> version1_2_HandleRequest testEnv dockerAPI [''abc''] (testManager ([], None)) emptyState
        (testRequest [])
      = (None, \<lparr>writer = [DockerResult [(''/docker/abc'', testInfo ''/docker/abc'')]],
                calls = [CallDockerContainer ''abc'']\<rparr>)
   \<and> version1_2_HandleRequest testEnv dockerAPI [''abc'', ''d''] (testManager ([], None))
        emptyState (testRequest [])
      = (Some (UnknownDockerRequest [''abc'', ''d'']), emptyState)
   \<and> version1_2_HandleRequest testEnv dockerAPI [''abc''] (testManager ([], None)) emptyState
        ((testRequest [])\<lparr>Body := ''{''\<rparr>)
      = (Some (Upstream ''unexpected end of JSON input''), emptyState)"
proof -
  let ?m = "testManager ([], None)"
  let ?bad = "(testRequest [])\<lparr>Body := ''{''\<rparr>"
  have b: "getContainerInfoRequest testEnv (Body (testRequest [])) = ([], None)"
    by (simp add: testEnv_def testRequest_def)
  have b': "getContainerInfoRequest testEnv (Body ?bad)
              = ([], Some (Upstream ''unexpected end of JSON input''))"
    by (simp add: testEnv_def)
  have n: "''abc'' \<noteq> []" and l: "2 \<le> length [''abc'', ''d'']"
    by simp_all
  note t = docker_request_paths [where env = testEnv and r = "testRequest []" and query = "[]"
        and m = ?m and s = emptyState and name = "''abc''" and request = "[''abc'', ''d'']"]
  note t' = docker_request_paths [where env = testEnv and r = ?bad and query = "[]"
        and m = ?m and s = emptyState and request = "[''abc'']"
        and err = "Upstream ''unexpected end of JSON input''"]
  have 1: "version1_2_HandleRequest testEnv dockerAPI [[]] ?m emptyState (testRequest []) =
        (case AllDockerContainers ?m [] of
           (containers, Some err) \<Rightarrow>
             (Some (FailedGetAllDocker err), called CallAllDockerContainers emptyState)
         | (containers, None) \<Rightarrow>
             writeTo testEnv (DockerResult containers) (called CallAllDockerContainers emptyState))"
    using t b by blast
  have 2: "version1_2_HandleRequest testEnv dockerAPI [''abc''] ?m emptyState (testRequest []) =
        (case DockerContainer ?m ''abc'' [] of
           (cont, Some err) \<Rightarrow>
             (Some (FailedGetDocker ''abc'' err), called (CallDockerContainer ''abc'') emptyState)
         | (cont, None) \<Rightarrow>
             writeTo testEnv (DockerResult [(Name cont, cont)])
               (called (CallDockerContainer ''abc'') emptyState))"
    using t b n by blast
  have 3: "version1_2_HandleRequest testEnv dockerAPI [''abc'', ''d''] ?m emptyState (testRequest [])
             = (Some (UnknownDockerRequest [''abc'', ''d'']), emptyState)"
    using t b l by blast
  have 4: "version1_2_HandleRequest testEnv dockerAPI [''abc''] ?m emptyState ?bad
             = (Some (Upstream ''unexpected end of JSON input''), emptyState)"
    using t' b' by blast
  show ?thesis
    unfolding 1 2 3 4
    using b
    by (simp add: testEnv_def testManager_def testInfo_def emptyState_def writeTo_def called_def)
qed

text \<open>C10 as stated fails when the body does not decode: the path \<^verbatim>\<open>docker/abc/d\<close> has two
  segments, and the error returned is the decoding error, not the unknown-request
  error.\<close>

theorem docker_body_error_first:
  "length [''abc'', ''d''] = 2
   \<and> version1_2_HandleRequest testEnv dockerAPI [''abc'', ''d''] (testManager ([], None))
        emptyState ((testRequest [])\<lparr>Body := ''{''\<rparr>)
      = (Some (Upstream ''unexpected end of JSON input''), emptyState)
   \<and> Upstream ''unexpected end of JSON input'' \<noteq> UnknownDockerRequest [''abc'', ''d'']"
  by (simp add: version1_2_HandleRequest_def testEnv_def)

subsection \<open>The request options\<close>

text \<open>C4. For every request, with each parameter read by \<open>Get\<close> (an absent parameter reads
  as the empty string): \<open>type\<close>, when given, must be one of \<open>name\<close>, \<open>docker\<close> and \<open>podman\<close>,
  else the parse fails; \<open>count\<close>, when given, must parse with \<open>Atoi\<close> to an integer that is
  at least \<open>- 1\<close>, else the parse fails, and it is 64 when absent; \<open>recursive\<close> is set on the
  exact value \<open>true\<close> and is false on any other value and when absent; \<open>max_age\<close>, when
  given, must parse with \<open>ParseDuration\<close>, else the parse fails, and stays unset when
  absent. Each failure is returned as an error, the first in this order, and there is no
  other error.\<close>

theorem GetRequestOptions_parse:
  fixes env :: "('a, 'w) Env" and r :: Request
  defines "idType \<equiv> Get (URLQuery r) ''type''"
    and "cnt \<equiv> Get (URLQuery r) ''count''"
    and "recursive \<equiv> Get (URLQuery r) ''recursive''"
    and "maxAge \<equiv> Get (URLQuery r) ''max_age''"
  defines "typeOk \<equiv> idType = [] \<or> idType \<in> {TypeName, TypeDocker, TypePodman}"
    and "countOk \<equiv> cnt = [] \<or> (snd (Atoi env cnt) = None \<and> - 1 \<le> fst (Atoi env cnt))"
    and "maxAgeOk \<equiv> maxAge = [] \<or> snd (ParseDuration env maxAge) = None"
  shows "(\<not> typeOk \<longrightarrow> snd (GetRequestOptions env r) = Some (UnknownIdType idType))
       \<and> (typeOk \<and> cnt \<noteq> [] \<and> snd (Atoi env cnt) \<noteq> None \<longrightarrow>
            snd (GetRequestOptions env r) = Some (FailedParseCount cnt))
       \<and> (typeOk \<and> cnt \<noteq> [] \<and> snd (Atoi env cnt) = None \<and> fst (Atoi env cnt) < - 1 \<longrightarrow>
            snd (GetRequestOptions env r) = Some (InvalidCount (fst (Atoi env cnt))))
       \<and> (typeOk \<and> countOk \<and> \<not> maxAgeOk \<longrightarrow>
            snd (GetRequestOptions env r) =
              Some (FailedParseMaxAge (the (snd (ParseDuration env maxAge)))))
       \<and> (typeOk \<and> countOk \<and> maxAgeOk \<longrightarrow>
            GetRequestOptions env r =
              (\<lparr>IdType = (if idType = [] then TypeName else idType),
                Count = (if cnt = [] then 64 else fst (Atoi env cnt)),
                Recursive = (recursive = ''true''),
                MaxAge = (if maxAge = [] then None else Some (fst (ParseDuration env maxAge)))\<rparr>,
               None))
       \<and> ((\<exists>err. snd (GetRequestOptions env r) = Some err) \<longleftrightarrow>
            \<not> (typeOk \<and> countOk \<and> maxAgeOk))"
proof -
  obtain d e where pd: "ParseDuration env maxAge = (d, e)" by (cases "ParseDuration env maxAge")
  obtain n ne where at: "Atoi env cnt = (n, ne)" by (cases "Atoi env cnt")
  show ?thesis
    unfolding typeOk_def countOk_def maxAgeOk_def
    using pd at
    unfolding idType_def cnt_def recursive_def maxAge_def
    by (auto simp: GetRequestOptions_def Let_def supportedTypes_def split: option.splits)
qed

text \<open>\<^verbatim>\<open>count=-1\<close> is accepted, \<^verbatim>\<open>count=-2\<close>, \<^verbatim>\<open>count=many\<close> and \<^verbatim>\<open>type=bogus\<close> are rejected,
  \<^verbatim>\<open>recursive=true\<close> sets recursion and \<^verbatim>\<open>recursive=True\<close> does not, \<^verbatim>\<open>max_age=90s\<close> is
  ninety seconds and \<^verbatim>\<open>max_age=soon\<close> is rejected.\<close>

lemma Atoi_minus_one: "strconv_Atoi ''-1'' = (- 1, None)"
  by (simp add: strconv_Atoi_def digitValue_def)

lemma Atoi_minus_two: "strconv_Atoi ''-2'' = (- 2, None)"
  by (simp add: strconv_Atoi_def digitValue_def)

lemma Atoi_many: "strconv_Atoi ''many'' = (0, Some (Upstream ''strconv.Atoi: invalid syntax''))"
  by (simp add: strconv_Atoi_def digitValue_def)

lemma seconds_90: "secondsDuration ''90s'' = (90000000000, None)"
  by (simp add: secondsDuration_def digitValue_def)

lemma seconds_soon: "secondsDuration ''soon'' = (0, Some (Upstream ''time: invalid duration''))"
  by (simp add: secondsDuration_def digitValue_def)

theorem GetRequestOptions_parse_witness:
  "GetRequestOptions testEnv (testRequest [(''count'', ''-1'')]) =
     (\<lparr>IdType = TypeName, Count = - 1, Recursive = False, MaxAge = None\<rparr>, None)
   \<and> snd (GetRequestOptions testEnv (testRequest [(''count'', ''-2'')])) = Some (InvalidCount (- 2))
   \<and> snd (GetRequestOptions testEnv (testRequest [(''count'', ''many'')])) =
       Some (FailedParseCount ''many'')
   \<and> snd (GetRequestOptions testEnv (testRequest [(''type'', ''bogus'')])) =
       Some (UnknownIdType ''bogus'')
   \<and> GetRequestOptions testEnv
       (testRequest [(''type'', ''podman''), (''recursive'', ''true''), (''max_age'', ''90s'')]) =
     (\<lparr>IdType = TypePodman, Count = 64, Recursive = True, MaxAge = Some 90000000000\<rparr>, None)
   \<and> GetRequestOptions testEnv (testRequest [(''recursive'', ''True'')]) =
     (\<lparr>IdType = TypeName, Count = 64, Recursive = False, MaxAge = None\<rparr>, None)
   \<and> snd (GetRequestOptions testEnv (testRequest [(''max_age'', ''soon'')])) =
       Some (FailedParseMaxAge (Upstream ''time: invalid duration''))"
proof -
  have env: "Atoi testEnv = strconv_Atoi" "ParseDuration testEnv = secondsDuration"
    by (simp_all add: testEnv_def)
  note facts = env Get_def testRequest_def Atoi_minus_one Atoi_minus_two Atoi_many seconds_90 seconds_soon
  have 1: "GetRequestOptions testEnv (testRequest [(''count'', ''-1'')]) =
     (\<lparr>IdType = TypeName, Count = - 1, Recursive = False, MaxAge = None\<rparr>, None)"
    using GetRequestOptions_parse [of "testRequest [(''count'', ''-1'')]" testEnv]
    by (simp add: facts)
  have 2: "snd (GetRequestOptions testEnv (testRequest [(''count'', ''-2'')])) = Some (InvalidCount (- 2))"
    using GetRequestOptions_parse [of "testRequest [(''count'', ''-2'')]" testEnv]
    by (simp add: facts)
  have 3: "snd (GetRequestOptions testEnv (testRequest [(''count'', ''many'')])) =
       Some (FailedParseCount ''many'')"
    using GetRequestOptions_parse [of "testRequest [(''count'', ''many'')]" testEnv]
    by (simp add: facts)
  have 4: "snd (GetRequestOptions testEnv (testRequest [(''type'', ''bogus'')])) =
       Some (UnknownIdType ''bogus'')"
    using GetRequestOptions_parse [of "testRequest [(''type'', ''bogus'')]" testEnv]
    by (simp add: facts)
  have 5: "GetRequestOptions testEnv
       (testRequest [(''type'', ''podman''), (''recursive'', ''true''), (''max_age'', ''90s'')]) =
     (\<lparr>IdType = TypePodman, Count = 64, Recursive = True, MaxAge = Some 90000000000\<rparr>, None)"
    using GetRequestOptions_parse [of "testRequest [(''type'', ''podman''), (''recursive'', ''true''), (''max_age'', ''90s'')]" testEnv]
    by (simp add: facts)
  have 6: "GetRequestOptions testEnv (testRequest [(''recursive'', ''True'')]) =
     (\<lparr>IdType = TypeName, Count = 64, Recursive = False, MaxAge = None\<rparr>, None)"
    using GetRequestOptions_parse [of "testRequest [(''recursive'', ''True'')]" testEnv]
    by (simp add: facts)
  have 7: "snd (GetRequestOptions testEnv (testRequest [(''max_age'', ''soon'')])) =
       Some (FailedParseMaxAge (Upstream ''time: invalid duration''))"
    using GetRequestOptions_parse [of "testRequest [(''max_age'', ''soon'')]" testEnv]
    by (simp add: facts)
  show ?thesis using 1 2 3 4 5 6 7 by simp
qed


section \<open>Properties of the factory registry\<close>

subsection \<open>Helper facts\<close>

lemma Register_at:
  "RegisterContainerHandlerFactory f ws fs w = fs w @ replicate (count_list ws w) f"
  by (induction ws arbitrary: fs) (auto simp: replicate_app_Cons_same)

lemma registerAll_at:
  "registerAll regs fs w = fs w @ registeredFor w regs"
proof (induction regs arbitrary: fs)
  case Nil
  then show ?case by (simp add: registeredFor_def)
next
  case (Cons p regs)
  obtain f ws where p: "p = (f, ws)" by (cases p)
  show ?case
    unfolding p by (simp add: Cons.IH Register_at registeredFor_def)
qed

lemma reordered_mset:
  "mset (GetReorderedFactoryList fs w) = mset (fs w)"
  by (simp add: GetReorderedFactoryList_def union_commute)

lemma reordered_others:
  "filter (\<lambda>f. String f \<noteq> ''raw'') (GetReorderedFactoryList fs w) =
   filter (\<lambda>f. String f \<noteq> ''raw'') (fs w)"
  by (simp add: GetReorderedFactoryList_def)

lemma reordered_raw_last:
  assumes "f \<in> set (fs w)" "String f = ''raw''"
  shows "GetReorderedFactoryList fs w \<noteq> [] \<and> String (last (GetReorderedFactoryList fs w)) = ''raw''"
proof -
  let ?raws = "filter (\<lambda>f. String f = ''raw'') (fs w)"
  have ne: "?raws \<noteq> []" using assms by (auto simp: filter_empty_conv)
  then have "last ?raws \<in> set ?raws" by (rule last_in_set)
  then have "String (last ?raws) = ''raw''" by simp
  then show ?thesis using ne by (simp add: GetReorderedFactoryList_def)
qed

lemma reordered_one_raw:
  assumes "filter (\<lambda>f. String f = ''raw'') (fs w) = [f]"
  shows "last (GetReorderedFactoryList fs w) = f"
  using assms by (simp add: GetReorderedFactoryList_def)

lemma reordered_no_raw:
  assumes "\<forall>f \<in> set (fs w). String f \<noteq> ''raw''"
  shows "GetReorderedFactoryList fs w = fs w"
proof -
  have "filter (\<lambda>f. String f \<noteq> ''raw'') (fs w) = fs w"
    using assms by (simp add: filter_id_conv)
  moreover have "filter (\<lambda>f. String f = ''raw'') (fs w) = []"
    using assms by (simp add: filter_empty_conv)
  ultimately show ?thesis by (simp add: GetReorderedFactoryList_def)
qed

lemma reordered_raws_at_end:
  assumes "i < j" "j < length (GetReorderedFactoryList fs w)"
    "String (GetReorderedFactoryList fs w ! i) = ''raw''"
  shows "String (GetReorderedFactoryList fs w ! j) = ''raw''"
proof -
  let ?a = "filter (\<lambda>f. String f \<noteq> ''raw'') (fs w)"
  let ?b = "filter (\<lambda>f. String f = ''raw'') (fs w)"
  have R: "GetReorderedFactoryList fs w = ?a @ ?b" by (simp add: GetReorderedFactoryList_def)
  have "\<not> i < length ?a"
  proof
    assume "i < length ?a"
    then have "(?a @ ?b) ! i = ?a ! i" "?a ! i \<in> set ?a"
      by (simp_all only: nth_append nth_mem if_True)
    then have "String ((?a @ ?b) ! i) \<noteq> ''raw''" by simp
    then show False using assms(3) R by simp
  qed
  then have "\<not> j < length ?a" using assms(1) by simp
  then have "(?a @ ?b) ! j = ?b ! (j - length ?a)" "j - length ?a < length ?b"
    using assms(2) R by (simp_all add: nth_append)
  then have "(?a @ ?b) ! j \<in> set ?b" by (simp only: nth_mem)
  then show ?thesis using R by simp
qed

lemma asked_simps:
  "asked [] name = []"
  "asked (f # factories) name = AskCanHandleAndAccept (String f) name # asked factories name"
  "asked (factories @ others) name = asked factories name @ asked others name"
  by (simp_all add: asked_def)

lemma dispatch_none:
  assumes "\<forall>f \<in> set factories. \<not> fst (CanHandleAndAccept f name) \<and>
             snd (snd (CanHandleAndAccept f name)) = None"
  shows "dispatch factories name allowedEnvVars isHostNamespace log =
           ((None, False, Some (NoHandlerFound name)), log @ asked factories name)"
  using assms
proof (induction factories arbitrary: log)
  case Nil
  then show ?case by (simp add: asked_simps)
next
  case (Cons f factories)
  obtain h a e where c: "CanHandleAndAccept f name = (h, a, e)"
    by (cases "CanHandleAndAccept f name")
  have "\<not> h" "e = None" using Cons.prems c by auto
  then show ?case
    using Cons c by (simp add: asked_simps)
qed

lemma dispatch_first:
  assumes "\<forall>g \<in> set pre. \<not> fst (CanHandleAndAccept g name) \<and>
             snd (snd (CanHandleAndAccept g name)) = None"
    and "CanHandleAndAccept f name = (True, canAccept, None)"
  shows "dispatch (pre @ f # post) name allowedEnvVars isHostNamespace log =
           (if \<not> canAccept then ((None, False, None), log @ asked (pre @ [f]) name)
            else (case NewContainerHandler f name allowedEnvVars isHostNamespace of
                    (handler, Some err) \<Rightarrow>
                      ((handler, True, Some (HandlerConstructionFailed name (String f) err)),
                       log @ asked (pre @ [f]) name @ [Construct (String f) name])
                  | (handler, None) \<Rightarrow>
                      ((handler, True, None),
                       log @ asked (pre @ [f]) name @ [Construct (String f) name])))"
  using assms(1)
proof (induction pre arbitrary: log)
  case Nil
  then show ?case
    using assms(2) by (simp add: asked_simps split: prod.splits option.splits)
next
  case (Cons g pre)
  obtain h a e where c: "CanHandleAndAccept g name = (h, a, e)"
    by (cases "CanHandleAndAccept g name")
  have "\<not> h" "e = None" using Cons.prems c by auto
  then show ?case
    using Cons c by (simp add: asked_simps split: prod.splits option.splits)
qed

lemma dispatch_error:
  assumes "\<forall>g \<in> set pre. \<not> fst (CanHandleAndAccept g name) \<and>
             snd (snd (CanHandleAndAccept g name)) = None"
    and "snd (snd (CanHandleAndAccept f name)) = Some err"
  shows "dispatch (pre @ f # post) name allowedEnvVars isHostNamespace log =
           ((None, False, Some err), log @ asked (pre @ [f]) name)"
  using assms(1)
proof (induction pre arbitrary: log)
  case Nil
  obtain h a e where c: "CanHandleAndAccept f name = (h, a, e)"
    by (cases "CanHandleAndAccept f name")
  then show ?case
    using assms(2) by (simp add: asked_simps)
next
  case (Cons g pre)
  obtain h a e where c: "CanHandleAndAccept g name = (h, a, e)"
    by (cases "CanHandleAndAccept g name")
  have "\<not> h" "e = None" using Cons.prems c by auto
  then show ?case
    using Cons c by (simp add: asked_simps)
qed

lemma fixture_fields:
  "String allwaysNo = ''no''" "CanHandleAndAccept allwaysNo name = (False, True, None)"
  "String allwaysYes = ''yes''" "CanHandleAndAccept allwaysYes name = (True, True, None)"
  "NewContainerHandler allwaysYes testContainerName envs host = (Some ''mockContainer'', None)"
  "String cannotAccept = ''no''" "CanHandleAndAccept cannotAccept name = (True, False, None)"
  "String chf1 = ''raw''" "String cfh2 = ''crio''" "String cfh3 = ''containerd''"
  "String failingFactory = ''docker''"
  "CanHandleAndAccept failingFactory name = (False, False, Some (Upstream ''cannot reach the daemon''))"
  by (simp_all add: allwaysNo_def allwaysYes_def cannotAccept_def chf1_def cfh2_def cfh3_def
      failingFactory_def mockFactory_def)

subsection \<open>The reordered list\<close>

text \<open>C3. After any sequence of \<open>Register\<close> calls on a cleared registry, the list of a watch
  source \<open>S\<close> holds the factories registered for \<open>S\<close>, in the order of the calls, and
  \<open>GetReorderedFactoryList\<close> returns exactly these (the same factories, each as often). The
  factories not identified as \<open>raw\<close> keep their relative order. If a factory identified as
  \<open>raw\<close> is registered, the last of the returned list is identified as \<open>raw\<close>; if it is the
  one such factory, it is the last element; whatever the order of registration, nothing but
  factories identified as \<open>raw\<close> comes after one of them. If none is identified as \<open>raw\<close>,
  the returned list is the registered one.\<close>

theorem reordered_list_raw_last:
  fixes regs :: "('h ContainerHandlerFactory \<times> ContainerWatchSource list) list"
  defines "fs \<equiv> registerAll regs ClearContainerHandlerFactories"
  shows "fs S = registeredFor S regs
       \<and> mset (GetReorderedFactoryList fs S) = mset (registeredFor S regs)
       \<and> length (GetReorderedFactoryList fs S) = length (registeredFor S regs)
       \<and> filter (\<lambda>f. String f \<noteq> ''raw'') (GetReorderedFactoryList fs S) =
           filter (\<lambda>f. String f \<noteq> ''raw'') (registeredFor S regs)
       \<and> ((\<exists>f \<in> set (registeredFor S regs). String f = ''raw'') \<longrightarrow>
            GetReorderedFactoryList fs S \<noteq> [] \<and>
            String (last (GetReorderedFactoryList fs S)) = ''raw'')
       \<and> (\<forall>f. filter (\<lambda>f. String f = ''raw'') (registeredFor S regs) = [f] \<longrightarrow>
            last (GetReorderedFactoryList fs S) = f)
       \<and> (\<forall>i j. i < j \<and> j < length (GetReorderedFactoryList fs S) \<and>
                String (GetReorderedFactoryList fs S ! i) = ''raw'' \<longrightarrow>
                String (GetReorderedFactoryList fs S ! j) = ''raw'')
       \<and> ((\<forall>f \<in> set (registeredFor S regs). String f \<noteq> ''raw'') \<longrightarrow>
            GetReorderedFactoryList fs S = registeredFor S regs)"
proof -
  have at: "fs S = registeredFor S regs"
    by (simp add: fs_def registerAll_at ClearContainerHandlerFactories_def)
  have ms: "mset (GetReorderedFactoryList fs S) = mset (registeredFor S regs)"
    using reordered_mset [of fs S] by (simp only: at)
  have len: "length (GetReorderedFactoryList fs S) = length (registeredFor S regs)"
    using ms by (rule mset_eq_length)
  have oth: "filter (\<lambda>f. String f \<noteq> ''raw'') (GetReorderedFactoryList fs S) =
             filter (\<lambda>f. String f \<noteq> ''raw'') (registeredFor S regs)"
    using reordered_others [of fs S] by (simp only: at)
  have lastraw: "(\<exists>f \<in> set (registeredFor S regs). String f = ''raw'') \<longrightarrow>
            GetReorderedFactoryList fs S \<noteq> [] \<and>
            String (last (GetReorderedFactoryList fs S)) = ''raw''"
  proof
    assume "\<exists>f \<in> set (registeredFor S regs). String f = ''raw''"
    then obtain f where "f \<in> set (fs S)" "String f = ''raw''"
      unfolding at by (rule bexE)
    then show "GetReorderedFactoryList fs S \<noteq> [] \<and>
               String (last (GetReorderedFactoryList fs S)) = ''raw''"
      by (rule reordered_raw_last)
  qed
  have one: "\<forall>f. filter (\<lambda>f. String f = ''raw'') (registeredFor S regs) = [f] \<longrightarrow>
            last (GetReorderedFactoryList fs S) = f"
  proof (intro allI impI)
    fix f
    assume "filter (\<lambda>f. String f = ''raw'') (registeredFor S regs) = [f]"
    then have "filter (\<lambda>f. String f = ''raw'') (fs S) = [f]" by (simp only: at)
    then show "last (GetReorderedFactoryList fs S) = f" by (rule reordered_one_raw)
  qed
  have tail: "\<forall>i j. i < j \<and> j < length (GetReorderedFactoryList fs S) \<and>
                String (GetReorderedFactoryList fs S ! i) = ''raw'' \<longrightarrow>
                String (GetReorderedFactoryList fs S ! j) = ''raw''"
  proof (intro allI impI)
    fix i j
    assume a: "i < j \<and> j < length (GetReorderedFactoryList fs S) \<and>
               String (GetReorderedFactoryList fs S ! i) = ''raw''"
    show "String (GetReorderedFactoryList fs S ! j) = ''raw''"
      by (rule reordered_raws_at_end [of i j fs S]) (simp_all only: a)
  qed
  have none: "(\<forall>f \<in> set (registeredFor S regs). String f \<noteq> ''raw'') \<longrightarrow>
            GetReorderedFactoryList fs S = registeredFor S regs"
  proof
    assume "\<forall>f \<in> set (registeredFor S regs). String f \<noteq> ''raw''"
    then have "\<forall>f \<in> set (fs S). String f \<noteq> ''raw''" by (simp only: at)
    then have "GetReorderedFactoryList fs S = fs S" by (rule reordered_no_raw)
    then show "GetReorderedFactoryList fs S = registeredFor S regs" by (simp only: at)
  qed
  show ?thesis
    by (intro conjI at ms len oth lastraw one tail none)
qed

text \<open>\<^verbatim>\<open>TestRawContainerHandler_Last\<close>: \<open>raw\<close>, \<open>crio\<close> and \<open>containerd\<close>, registered in
  this order.\<close>

theorem reordered_list_raw_last_witness:
  "chf1 \<in> set (registeredFor Raw [(chf1, [Raw]), (cfh2, [Raw]), (cfh3, [Raw])])
   \<and> String chf1 = ''raw''
   \<and> map String (registeredFor Raw [(chf1, [Raw]), (cfh2, [Raw]), (cfh3, [Raw])]) =
       [''raw'', ''crio'', ''containerd'']
   \<and> map String (GetReorderedFactoryList
        (registerAll [(chf1, [Raw]), (cfh2, [Raw]), (cfh3, [Raw])] ClearContainerHandlerFactories)
        Raw) = [''crio'', ''containerd'', ''raw'']
   \<and> String (last (GetReorderedFactoryList
        (registerAll [(chf1, [Raw]), (cfh2, [Raw]), (cfh3, [Raw])] ClearContainerHandlerFactories)
        Raw)) = ''raw''
   \<and> last (GetReorderedFactoryList
        (registerAll [(chf1, [Raw]), (cfh2, [Raw]), (cfh3, [Raw])] ClearContainerHandlerFactories)
        Raw) = chf1"
proof -
  let ?regs = "[(chf1, [Raw]), (cfh2, [Raw]), (cfh3, [Raw])]"
  have r: "registeredFor Raw ?regs = [chf1, cfh2, cfh3]"
    by (simp add: registeredFor_def)
  have one: "filter (\<lambda>f. String f = ''raw'') (registeredFor Raw ?regs) = [chf1]"
    by (simp add: r fixture_fields)
  have ex: "\<exists>f \<in> set (registeredFor Raw ?regs). String f = ''raw''"
    by (simp add: r fixture_fields)
  note t = reordered_list_raw_last [of ?regs Raw]
  have l: "last (GetReorderedFactoryList (registerAll ?regs ClearContainerHandlerFactories) Raw)
             = chf1"
    using t one by blast
  have l': "String (last (GetReorderedFactoryList
              (registerAll ?regs ClearContainerHandlerFactories) Raw)) = ''raw''"
    using t ex by blast
  have o: "map String (GetReorderedFactoryList
             (registerAll ?regs ClearContainerHandlerFactories) Raw) = [''crio'', ''containerd'', ''raw'']"
    by (simp add: GetReorderedFactoryList_def ClearContainerHandlerFactories_def fixture_fields)
  show ?thesis
    using l l' o by (simp add: r fixture_fields)
qed

subsection \<open>Dispatch\<close>

text \<open>C2, as amended. Let the reordered list of the watch source be consulted in order,
  and let no factory that is consulted fail in \<open>CanHandleAndAccept\<close>. If every factory
  reports \<open>canHandle = false\<close>, dispatch returns no handler and the not-found error that
  names the container. Otherwise dispatch selects the first factory that reports
  \<open>canHandle = true\<close>: no factory after it is consulted; if it reports \<open>canAccept = false\<close>,
  dispatch returns no handler, \<open>accepted = false\<close> and no error, and the construction of no
  factory is invoked; if it reports \<open>canAccept = true\<close>, its construction, and no other, is
  invoked and decides the outcome. If a factory fails in \<open>CanHandleAndAccept\<close> before any
  reports \<open>canHandle = true\<close>, dispatch stops there and returns that error, no handler and
  \<open>accepted = false\<close>.\<close>

theorem dispatch_first_match:
  "((\<forall>f \<in> set (GetReorderedFactoryList fs watchType).
        \<not> fst (CanHandleAndAccept f name) \<and> snd (snd (CanHandleAndAccept f name)) = None) \<longrightarrow>
      container_NewContainerHandler fs name watchType allowedEnvVars isHostNamespace =
        ((None, False, Some (NoHandlerFound name)),
         asked (GetReorderedFactoryList fs watchType) name))
   \<and> (GetReorderedFactoryList fs watchType = pre @ f # post \<and>
      (\<forall>g \<in> set pre. \<not> fst (CanHandleAndAccept g name) \<and>
         snd (snd (CanHandleAndAccept g name)) = None) \<and>
      CanHandleAndAccept f name = (True, False, None) \<longrightarrow>
      container_NewContainerHandler fs name watchType allowedEnvVars isHostNamespace =
        ((None, False, None), asked (pre @ [f]) name))
   \<and> (GetReorderedFactoryList fs watchType = pre @ f # post \<and>
      (\<forall>g \<in> set pre. \<not> fst (CanHandleAndAccept g name) \<and>
         snd (snd (CanHandleAndAccept g name)) = None) \<and>
      CanHandleAndAccept f name = (True, True, None) \<longrightarrow>
      snd (container_NewContainerHandler fs name watchType allowedEnvVars isHostNamespace) =
        asked (pre @ [f]) name @ [Construct (String f) name] \<and>
      fst (container_NewContainerHandler fs name watchType allowedEnvVars isHostNamespace) =
        (case NewContainerHandler f name allowedEnvVars isHostNamespace of
           (handler, Some err) \<Rightarrow>
             (handler, True, Some (HandlerConstructionFailed name (String f) err))
         | (handler, None) \<Rightarrow> (handler, True, None)))
   \<and> (GetReorderedFactoryList fs watchType = pre @ f # post \<and>
      (\<forall>g \<in> set pre. \<not> fst (CanHandleAndAccept g name) \<and>
         snd (snd (CanHandleAndAccept g name)) = None) \<and>
      snd (snd (CanHandleAndAccept f name)) = Some err \<longrightarrow>
      container_NewContainerHandler fs name watchType allowedEnvVars isHostNamespace =
        ((None, False, Some err), asked (pre @ [f]) name))"
  unfolding container_NewContainerHandler_def
  using dispatch_none [where factories = "GetReorderedFactoryList fs watchType" and name = name
      and allowedEnvVars = allowedEnvVars and isHostNamespace = isHostNamespace and log = "[]"]
    dispatch_first [where pre = pre and name = name and f = f and canAccept = False
      and allowedEnvVars = allowedEnvVars and isHostNamespace = isHostNamespace
      and post = post and log = "[]"]
    dispatch_first [where pre = pre and name = name and f = f and canAccept = True
      and allowedEnvVars = allowedEnvVars and isHostNamespace = isHostNamespace
      and post = post and log = "[]"]
    dispatch_error [where pre = pre and name = name and f = f and err = err
      and allowedEnvVars = allowedEnvVars and isHostNamespace = isHostNamespace
      and post = post and log = "[]"]
  by (auto split: prod.splits option.splits)

text \<open>\<^verbatim>\<open>TestNewContainerHandler_SecondMatches\<close>, \<^verbatim>\<open>TestNewContainerHandler_Accept\<close> and
  \<^verbatim>\<open>TestNewContainerHandler_NoneMatch\<close>, and a list whose first factory fails.\<close>

theorem dispatch_first_match_witness:
  "container_NewContainerHandler
     (registerAll [(allwaysNo, [Raw]), (allwaysYes, [Raw])] ClearContainerHandlerFactories)
     testContainerName Raw [] True
     = ((Some ''mockContainer'', True, None),
        [AskCanHandleAndAccept ''no'' testContainerName,
         AskCanHandleAndAccept ''yes'' testContainerName,
         Construct ''yes'' testContainerName])
   \<and> container_NewContainerHandler
     (registerAll [(allwaysNo, [Raw]), (cannotAccept, [Raw])] ClearContainerHandlerFactories)
     testContainerName Raw [] True
     = ((None, False, None),
        [AskCanHandleAndAccept ''no'' testContainerName,
         AskCanHandleAndAccept ''no'' testContainerName])
   \<and> container_NewContainerHandler
     (registerAll [(allwaysNo, [Raw]), (allwaysNo, [Raw])] ClearContainerHandlerFactories)
     testContainerName Raw [] True
     = ((None, False, Some (NoHandlerFound testContainerName)),
        [AskCanHandleAndAccept ''no'' testContainerName,
         AskCanHandleAndAccept ''no'' testContainerName])
   \<and> container_NewContainerHandler
     (registerAll [(allwaysNo, [Raw]), (failingFactory, [Raw]), (allwaysYes, [Raw])]
        ClearContainerHandlerFactories)
     testContainerName Raw [] True
     = ((None, False, Some (Upstream ''cannot reach the daemon'')),
        [AskCanHandleAndAccept ''no'' testContainerName,
         AskCanHandleAndAccept ''docker'' testContainerName])"
proof -
  let ?c = ClearContainerHandlerFactories
  note ev = GetReorderedFactoryList_def ClearContainerHandlerFactories_def fixture_fields
  have l1: "GetReorderedFactoryList (registerAll [(allwaysNo, [Raw]), (allwaysYes, [Raw])] ?c) Raw
              = [allwaysNo] @ allwaysYes # []"
    by (simp add: ev)
  have l2: "GetReorderedFactoryList (registerAll [(allwaysNo, [Raw]), (cannotAccept, [Raw])] ?c) Raw
              = [allwaysNo] @ cannotAccept # []"
    by (simp add: ev)
  have l3: "GetReorderedFactoryList (registerAll [(allwaysNo, [Raw]), (allwaysNo, [Raw])] ?c) Raw
              = [allwaysNo, allwaysNo]"
    by (simp add: ev)
  have l4: "GetReorderedFactoryList
              (registerAll [(allwaysNo, [Raw]), (failingFactory, [Raw]), (allwaysYes, [Raw])] ?c) Raw
              = [allwaysNo] @ failingFactory # [allwaysYes]"
    by (simp add: ev)
  have pre: "\<forall>g \<in> set [allwaysNo]. \<not> fst (CanHandleAndAccept g testContainerName) \<and>
               snd (snd (CanHandleAndAccept g testContainerName)) = None"
    by (simp add: fixture_fields)
  have all: "\<forall>g \<in> set [allwaysNo, allwaysNo]. \<not> fst (CanHandleAndAccept g testContainerName) \<and>
               snd (snd (CanHandleAndAccept g testContainerName)) = None"
    by (simp add: fixture_fields)
  have 1: "container_NewContainerHandler
             (registerAll [(allwaysNo, [Raw]), (allwaysYes, [Raw])] ?c) testContainerName Raw [] True
           = ((Some ''mockContainer'', True, None),
              asked [allwaysNo, allwaysYes] testContainerName @ [Construct ''yes'' testContainerName])"
    using dispatch_first_match [where fs = "registerAll [(allwaysNo, [Raw]), (allwaysYes, [Raw])] ?c"
        and watchType = Raw and name = testContainerName and pre = "[allwaysNo]"
        and f = allwaysYes and post = "[]" and allowedEnvVars = "[]" and isHostNamespace = True]
      l1 pre
    by (simp add: fixture_fields prod_eq_iff)
  have 2: "container_NewContainerHandler
             (registerAll [(allwaysNo, [Raw]), (cannotAccept, [Raw])] ?c) testContainerName Raw [] True
           = ((None, False, None), asked [allwaysNo, cannotAccept] testContainerName)"
    using dispatch_first_match [where fs = "registerAll [(allwaysNo, [Raw]), (cannotAccept, [Raw])] ?c"
        and watchType = Raw and name = testContainerName and pre = "[allwaysNo]"
        and f = cannotAccept and post = "[]" and allowedEnvVars = "[]" and isHostNamespace = True]
      l2 pre
    by (simp add: fixture_fields)
  have 3: "container_NewContainerHandler
             (registerAll [(allwaysNo, [Raw]), (allwaysNo, [Raw])] ?c) testContainerName Raw [] True
           = ((None, False, Some (NoHandlerFound testContainerName)),
              asked [allwaysNo, allwaysNo] testContainerName)"
    using dispatch_first_match [where fs = "registerAll [(allwaysNo, [Raw]), (allwaysNo, [Raw])] ?c"
        and watchType = Raw and name = testContainerName and allowedEnvVars = "[]"
        and isHostNamespace = True]
      l3 all
    by simp
  have 4: "container_NewContainerHandler
             (registerAll [(allwaysNo, [Raw]), (failingFactory, [Raw]), (allwaysYes, [Raw])] ?c)
             testContainerName Raw [] True
           = ((None, False, Some (Upstream ''cannot reach the daemon'')),
              asked [allwaysNo, failingFactory] testContainerName)"
    using dispatch_first_match [where fs =
          "registerAll [(allwaysNo, [Raw]), (failingFactory, [Raw]), (allwaysYes, [Raw])] ?c"
        and watchType = Raw and name = testContainerName and pre = "[allwaysNo]"
        and f = failingFactory and post = "[allwaysYes]" and allowedEnvVars = "[]"
        and isHostNamespace = True and err = "Upstream ''cannot reach the daemon''"]
      l4 pre
    by (simp add: fixture_fields)
  show ?thesis
    using 1 2 3 4 by (simp add: asked_simps fixture_fields)
qed

text \<open>C2 as stated fails where a factory fails in \<open>CanHandleAndAccept\<close>. With the failing
  factory registered before \<open>allwaysYes\<close>, the first factory that reports \<open>canHandle = true\<close>
  is \<open>allwaysYes\<close>, and dispatch does not select it: it returns the error of the failing
  factory and consults nobody else. With the failing factory alone, no factory reports
  \<open>canHandle = true\<close>, and the error returned is not the not-found error.\<close>

theorem dispatch_fails_fast:
  "map String (GetReorderedFactoryList
      (registerAll [(failingFactory, [Raw]), (allwaysYes, [Raw])] ClearContainerHandlerFactories)
      Raw) = [''docker'', ''yes'']
   \<and> fst (CanHandleAndAccept failingFactory testContainerName) = False
   \<and> fst (CanHandleAndAccept allwaysYes testContainerName) = True
   \<and> container_NewContainerHandler
       (registerAll [(failingFactory, [Raw]), (allwaysYes, [Raw])] ClearContainerHandlerFactories)
       testContainerName Raw [] True
     = ((None, False, Some (Upstream ''cannot reach the daemon'')),
        [AskCanHandleAndAccept ''docker'' testContainerName])
   \<and> container_NewContainerHandler
       (registerAll [(failingFactory, [Raw])] ClearContainerHandlerFactories)
       testContainerName Raw [] True
     = ((None, False, Some (Upstream ''cannot reach the daemon'')),
        [AskCanHandleAndAccept ''docker'' testContainerName])
   \<and> Upstream ''cannot reach the daemon'' \<noteq> NoHandlerFound testContainerName"
  by (simp add: container_NewContainerHandler_def GetReorderedFactoryList_def
      ClearContainerHandlerFactories_def fixture_fields)

end
